(* ===== verification/Telemetry_Prelude.thy ===== *)
theory Telemetry_Prelude
  imports Complex_Main "HOL-Library.DAList" "HOL-Library.Multiset"
begin

text \<open>
  Shared vocabulary of the development: the fact collections the component theories
  fill, the type of time stamps, and the generic lemmas on options, maps, association
  lists, indexed lists and their multisets that the component proofs rest on. The lemmas
  mention neither the adapter nor the tracing SDK.
\<close>

section \<open>Fact collections\<close>

named_theorems sdk_defs \<open>definitions of the SDK operations, unfolded to compute a call\<close>
named_theorems adapter_defs \<open>definitions of the adapter's methods and their helpers\<close>
named_theorems frame \<open>fields of the world that an operation leaves unchanged\<close>
named_theorems diag_free \<open>operations that commute with a change of the diagnostic logger\<close>

section \<open>Time stamps and optional arguments\<close>

text \<open>
  \<^verbatim>\<open>Date.now()\<close> yields integral milliseconds since the epoch and a caller may pass any
  number as a \<^verbatim>\<open>TimeInput\<close>, negative ones included, so time stamps are integers.
  An optional parameter of a method is an \<open>option\<close>: \<open>None\<close> stands for both \<^verbatim>\<open>undefined\<close>
  and \<^verbatim>\<open>null\<close>, which the operators \<^verbatim>\<open>??\<close>, \<^verbatim>\<open>?.\<close> and \<^verbatim>\<open>!= null\<close> do not tell apart.
\<close>

type_synonym TimeInput = int

definition nullish :: "'a option \<Rightarrow> 'a \<Rightarrow> 'a" where
  "nullish x d = (case x of None \<Rightarrow> d | Some v \<Rightarrow> v)"

definition truthy :: "bool option \<Rightarrow> bool" where
  "truthy b = (case b of None \<Rightarrow> False | Some v \<Rightarrow> v)"

lemma nullish_simps [simp]: "nullish None d = d" "nullish (Some v) d = v"
  by (simp_all add: nullish_def)

lemma truthy_simps [simp]: "truthy None = False" "truthy (Some v) = v"
  by (simp_all add: truthy_def)

section \<open>Maps built from entries\<close>

lemma fold_upd_map_add:
  "fold (\<lambda>(k, v) m. m(k \<mapsto> v)) es m = m ++ map_of (rev es)"
proof (induction es arbitrary: m)
  case Nil
  show ?case by simp
next
  case (Cons e es)
  obtain k v where e: "e = (k, v)" by (cases e)
  with Cons.IH [of "m(k \<mapsto> v)"] show ?case
    by (simp add: map_add_def fun_eq_iff split: option.splits)
qed

lemma map_of_rev_distinct:
  "distinct (map fst es) \<Longrightarrow> map_of (rev es) = map_of es"
proof (induction es)
  case Nil
  show ?case by simp
next
  case (Cons e es)
  obtain k v where e: "e = (k, v)" by (cases e)
  from Cons.prems e have notin: "k \<notin> dom (map_of es)"
    by (simp add: dom_map_of_conv_image_fst)
  from Cons have "map_of (rev es) = map_of es" by simp
  with e notin show ?case
    by (auto simp: map_add_def fun_eq_iff split: option.splits)
qed

lemma map_add_absorb [simp]: "(m ++ n) ++ n = m ++ n"
  by (rule ext) (simp add: map_add_def split: option.splits)

section \<open>Lists addressed by index\<close>

text \<open>
  The span store is a list and a handle is a position in it. A new object is put at the
  end, so the handles given out before stay valid and keep their objects.
\<close>

lemma nth_snoc_old [simp]: "i < length xs \<Longrightarrow> (xs @ [x]) ! i = xs ! i"
  by (simp add: nth_append)

lemma update_snoc_last [simp]: "(xs @ [x])[length xs := y] = xs @ [y]"
  by (induction xs) auto

lemma filter_update_unchanged:
  "i < length xs \<Longrightarrow> \<not> P (xs ! i) \<Longrightarrow> \<not> P y \<Longrightarrow> filter P (xs[i := y]) = filter P xs"
proof (induction xs arbitrary: i)
  case Nil
  then show ?case by simp
next
  case (Cons x xs)
  then show ?case by (cases i) auto
qed

lemma filter_mset_update_gain:
  "i < length xs \<Longrightarrow> \<not> P (xs ! i) \<Longrightarrow> P y \<Longrightarrow>
   filter_mset P (mset (xs[i := y])) = add_mset y (filter_mset P (mset xs))"
proof (induction xs arbitrary: i)
  case Nil
  then show ?case by simp
next
  case (Cons x xs)
  then show ?case by (cases i) auto
qed

lemma list_all_update_same:
  "i < length xs \<Longrightarrow> P y = P (xs ! i) \<Longrightarrow> list_all P (xs[i := y]) = list_all P xs"
proof (induction xs arbitrary: i)
  case Nil
  then show ?case by simp
next
  case (Cons x xs)
  then show ?case by (cases i) auto
qed

lemma list_all_drop_update_same:
  "i < length xs \<Longrightarrow> P y = P (xs ! i) \<Longrightarrow>
   list_all P (drop n (xs[i := y])) = list_all P (drop n xs)"
  by (auto simp: list_all_length nth_list_update)

lemma list_all_drop_snoc:
  "n \<le> length xs \<Longrightarrow> list_all P (drop n (xs @ [y])) \<longleftrightarrow> list_all P (drop n xs) \<and> P y"
  by auto

lemma mset_remove_nth: "mset (take i xs @ drop (Suc i) xs) \<subseteq># mset xs"
proof (cases "i < length xs")
  case True
  from id_take_nth_drop [OF True]
  have "mset xs = mset (take i xs @ xs ! i # drop (Suc i) xs)" by (rule arg_cong)
  also have "\<dots> = add_mset (xs ! i) (mset (take i xs @ drop (Suc i) xs))" by simp
  finally show ?thesis by simp
next
  case False
  then show ?thesis by simp
qed

end
