(* ===== verification/Attributes.thy ===== *)
theory Attributes
  imports Telemetry_Prelude
begin

text \<open>
  Attribute values and the two containers the adapter moves them between: the plain
  object \<^verbatim>\<open>Record<string, AttributeValue>\<close> that a span and the adapter's field hold, and
  the \<^verbatim>\<open>Map<string, AttributeValue>\<close> that \<^verbatim>\<open>setGlobalAttributes\<close> receives, with
  \<^verbatim>\<open>Object.fromEntries\<close> between them. The lemmas say what a lookup in the converted
  object returns.
\<close>

section \<open>Values and containers\<close>

text \<open>
  The values an attribute may carry: a string, a number or a boolean, with no nested
  structure. The adapter never inspects a value, it only stores and forwards it.
\<close>

datatype AttributeValue = StringValue string | NumberValue real | BooleanValue bool

text \<open>
  A plain object used as a dictionary is a finite map; writing a property that exists
  replaces its value. A \<^verbatim>\<open>Map\<close> keeps its entries in insertion order with one entry per
  key, which is the library's type of association lists with distinct keys:
  \<open>DAList.update\<close> is \<^verbatim>\<open>Map.prototype.set\<close> and \<open>DAList.lookup\<close> is \<^verbatim>\<open>Map.prototype.get\<close>.
\<close>

type_synonym Attributes = "string \<rightharpoonup> AttributeValue"
type_synonym AttributeMap = "(string, AttributeValue) alist"

section \<open>Object.fromEntries\<close>

text \<open>
  \<^verbatim>\<open>Object.fromEntries(iterable)\<close> starts from the empty object and defines one property
  per entry, in iteration order, so a later entry with the same key replaces an earlier
  one. \<open>fromEntries\<close> is the operation on any list of entries; \<open>fromEntriesMap\<close> is its
  use on a \<^verbatim>\<open>Map\<close>, whose iteration yields its entries in insertion order.
\<close>

definition fromEntries :: "('k \<times> 'v) list \<Rightarrow> ('k \<rightharpoonup> 'v)" where
  "fromEntries es = fold (\<lambda>(k, v) obj. obj(k \<mapsto> v)) es Map.empty"

definition fromEntriesMap :: "('k, 'v) alist \<Rightarrow> ('k \<rightharpoonup> 'v)" where
  "fromEntriesMap m = fromEntries (DAList.impl_of m)"

lemma fromEntries_Nil [simp]: "fromEntries [] = Map.empty"
  by (simp add: fromEntries_def)

lemma fromEntries_map_of_rev: "fromEntries es = map_of (rev es)"
  by (simp add: fromEntries_def fold_upd_map_add)

lemma fromEntries_snoc [simp]: "fromEntries (es @ [(k, v)]) = (fromEntries es)(k \<mapsto> v)"
  by (simp add: fromEntries_map_of_rev)

lemma fromEntries_append: "fromEntries (es @ fs) = fromEntries es ++ fromEntries fs"
  by (simp add: fromEntries_map_of_rev)

lemma dom_fromEntries [simp]: "dom (fromEntries es) = fst ` set es"
  by (simp add: fromEntries_map_of_rev dom_map_of_conv_image_fst)

lemma fromEntries_distinct:
  "distinct (map fst es) \<Longrightarrow> fromEntries es = map_of es"
  by (simp add: fromEntries_map_of_rev map_of_rev_distinct)

lemma fromEntriesMap_empty [simp]: "fromEntriesMap DAList.empty = Map.empty"
  by (simp add: fromEntriesMap_def DAList.empty.rep_eq)

lemma fromEntriesMap_lookup: "fromEntriesMap m = DAList.lookup m"
proof -
  have "distinct (map fst (DAList.impl_of m))" by (rule impl_of_distinct)
  then show ?thesis
    by (simp add: fromEntriesMap_def fromEntries_distinct DAList.lookup.rep_eq)
qed

lemma fromEntriesMap_update [simp]:
  "fromEntriesMap (DAList.update k v m) = (fromEntriesMap m)(k \<mapsto> v)"
  by (simp add: fromEntriesMap_lookup fun_eq_iff lookup_update)

end
