(* ===== verification/Sdk_State.thy ===== *)
theory Sdk_State
  imports Attributes
begin

text \<open>
  The objects of the tracing SDK that the adapter creates and talks to, and the state
  of the process around it: exporters, span processors, the tracer provider, spans, and
  the \<open>world\<close> record that holds what the adapter's calls read and change. The SDK is not
  part of the repository, so these types follow the system description; the names are the
  ones the source imports.
\<close>

section \<open>Diagnostics\<close>

text \<open>The logger and the level that \<^verbatim>\<open>diag.setLogger\<close> is given at line 38 of the source.\<close>

datatype DiagLogger = DiagConsoleLogger
datatype DiagLogLevel = VERBOSE

section \<open>Resource\<close>

text \<open>
  The keys of the resource descriptor. Five are members of \<^verbatim>\<open>SemanticResourceAttributes\<close>,
  whose string values the source does not show; the others are string literals of the
  source, carried by \<open>Key\<close>.
\<close>

datatype ResourceKey =
    SERVICE_NAME
  | SERVICE_VERSION
  | DEPLOYMENT_ENVIRONMENT
  | DEVICE_ID
  | OS_TYPE
  | Key string

type_synonym Resource = "(ResourceKey \<times> string) list"

section \<open>Exporters and processors\<close>

text \<open>
  The option object of a proxy agent is opaque to the adapter: it is read from the agent
  and handed to the exporter unchanged.
\<close>

type_synonym AgentOptions = "(string \<times> string) list"

record HttpsProxyAgent =
  options :: AgentOptions

record OTLPExporterConfig =
  url :: string
  compression :: string
  httpAgentOptions :: "AgentOptions option"

datatype SpanExporter =
    ConsoleSpanExporter
  | OTLPTraceExporter OTLPExporterConfig

datatype SpanProcessor =
    SimpleSpanProcessor SpanExporter
  | BatchSpanProcessor SpanExporter

primrec exporterOf :: "SpanProcessor \<Rightarrow> SpanExporter" where
  "exporterOf (SimpleSpanProcessor e) = e"
| "exporterOf (BatchSpanProcessor e) = e"

text \<open>Where an exporter sends what it is handed: the console has no endpoint.\<close>

primrec endpointOf :: "SpanExporter \<Rightarrow> string option" where
  "endpointOf ConsoleSpanExporter = None"
| "endpointOf (OTLPTraceExporter config) = Some (url config)"

primrec isBatch :: "SpanProcessor \<Rightarrow> bool" where
  "isBatch (SimpleSpanProcessor e) = False"
| "isBatch (BatchSpanProcessor e) = True"

section \<open>Tracer provider and tracer\<close>

record BasicTracerProvider =
  resource :: Resource
  processors :: "SpanProcessor list"

text \<open>
  The handle \<^verbatim>\<open>trace.getTracer\<close> returns carries the name it was asked for and no
  provider: it finds the process-wide provider each time it starts a span.
\<close>

datatype Tracer = ProxyTracer string

primrec scopeOf :: "Tracer \<Rightarrow> string" where
  "scopeOf (ProxyTracer scope) = scope"

section \<open>Spans\<close>

text \<open>
  A span object. \<open>span_endTime\<close> is \<open>None\<close> while the span is open. \<open>span_recording\<close> is
  false for the span a tracer hands out when no provider is registered; such a span
  ignores every call. \<open>span_processors\<close> and \<open>span_resource\<close> are those of the provider
  that was registered when the span was started.
\<close>

record Span =
  span_name :: string
  span_scope :: string
  span_startTime :: TimeInput
  span_attributes :: Attributes
  span_endTime :: "TimeInput option"
  span_resource :: Resource
  span_processors :: "SpanProcessor list"
  span_recording :: bool

definition isOpen :: "Span \<Rightarrow> bool" where
  "isOpen s \<longleftrightarrow> span_recording s \<and> span_endTime s = None"

definition isEnded :: "Span \<Rightarrow> bool" where
  "isEnded s \<longleftrightarrow> span_recording s \<and> span_endTime s \<noteq> None"

section \<open>The world\<close>

text \<open>
  What a call of the adapter can read or change:
  \<^item> \<open>now\<close>: the reading \<^verbatim>\<open>Date.now()\<close> gives;
  \<^item> \<open>diag\<close>: the diagnostic logger installed, if any;
  \<^item> \<open>globalTracerProvider\<close>: the provider registered process-wide, if any;
  \<^item> \<open>spans\<close>: the span objects created so far; a span handle is an index into this list;
  \<^item> \<open>pending\<close>: the spans a batching processor holds for a later export, oldest first,
    each with the exporter it is meant for;
  \<^item> \<open>exported\<close>: the spans handed to an exporter so far, oldest first.
\<close>

type_synonym SpanHandle = nat

record world =
  now :: TimeInput
  diag :: "(DiagLogger \<times> DiagLogLevel) option"
  globalTracerProvider :: "BasicTracerProvider option"
  spans :: "Span list"
  pending :: "(SpanExporter \<times> Span) list"
  exported :: "(SpanExporter \<times> Span) list"

definition initial_world :: "TimeInput \<Rightarrow> world" where
  "initial_world t =
     \<lparr>now = t, diag = None, globalTracerProvider = None, spans = [], pending = [], exported = []\<rparr>"

text \<open>The processors a span started now would be given: those of the registered provider.\<close>

definition providerProcessors :: "world \<Rightarrow> SpanProcessor list" where
  "providerProcessors w =
     (case globalTracerProvider w of None \<Rightarrow> [] | Some p \<Rightarrow> processors p)"

text \<open>The duration an exporter reports for a span: end time minus start time.\<close>

definition duration :: "Span \<Rightarrow> TimeInput option" where
  "duration s = map_option (\<lambda>e. e - span_startTime s) (span_endTime s)"

text \<open>
  Two worlds that differ at most in the diagnostic logger installed: what a program that
  does not look at the logger cannot tell apart.
\<close>

definition sameButDiag :: "world \<Rightarrow> world \<Rightarrow> bool" where
  "sameButDiag w w' \<longleftrightarrow>
     now w = now w' \<and> globalTracerProvider w = globalTracerProvider w'
     \<and> spans w = spans w' \<and> pending w = pending w' \<and> exported w = exported w'"

section \<open>Basic facts\<close>

lemma isOpen_not_isEnded: "isOpen s \<Longrightarrow> \<not> isEnded s"
  by (simp add: isOpen_def isEnded_def)

lemma isEnded_not_isOpen: "isEnded s \<Longrightarrow> \<not> isOpen s"
  by (simp add: isOpen_def isEnded_def)

lemma providerProcessors_simps [simp]:
  "globalTracerProvider w = None \<Longrightarrow> providerProcessors w = []"
  "globalTracerProvider w = Some p \<Longrightarrow> providerProcessors w = processors p"
  by (simp_all add: providerProcessors_def)

lemma initial_world_simps [simp]:
  "now (initial_world t) = t"
  "diag (initial_world t) = None"
  "globalTracerProvider (initial_world t) = None"
  "spans (initial_world t) = []"
  "pending (initial_world t) = []"
  "exported (initial_world t) = []"
  by (simp_all add: initial_world_def)

lemma sameButDiag_refl [simp]: "sameButDiag w w"
  by (simp add: sameButDiag_def)

lemma sameButDiag_sym: "sameButDiag w w' \<Longrightarrow> sameButDiag w' w"
  by (simp add: sameButDiag_def)

lemma sameButDiag_trans: "sameButDiag w w' \<Longrightarrow> sameButDiag w' w'' \<Longrightarrow> sameButDiag w w''"
  by (simp add: sameButDiag_def)

lemma sameButDiag_update [simp]:
  "sameButDiag (w\<lparr>diag := d\<rparr>) w' \<longleftrightarrow> sameButDiag w w'"
  "sameButDiag w (w'\<lparr>diag := d\<rparr>) \<longleftrightarrow> sameButDiag w w'"
  by (simp_all add: sameButDiag_def)

lemma sameButDiag_iff: "sameButDiag w w' \<longleftrightarrow> w = w'\<lparr>diag := diag w\<rparr>"
proof
  assume "sameButDiag w w'"
  then show "w = w'\<lparr>diag := diag w\<rparr>" by (simp add: sameButDiag_def)
next
  assume "w = w'\<lparr>diag := diag w\<rparr>"
  then have "sameButDiag w (w'\<lparr>diag := diag w\<rparr>)" by simp
  then show "sameButDiag w w'" by simp
qed

end
