(* ===== verification/Pipeline.thy ===== *)
theory Pipeline
  imports Sdk_State
begin

text \<open>
  What the span processors do with a span that has ended, and the deferred export of a
  batching processor. A simple processor hands the span to its exporter at once; a
  batching processor keeps it until its timer or size threshold fires, which the
  adapter neither sees nor triggers. The lemmas give the contents of \<open>pending\<close> and
  \<open>exported\<close> after each operation and show that the other fields of the world are left
  alone. \<open>owed\<close> is what a state must have handed over, one entry for each ended span
  and each processor it was started with, and \<open>conserved\<close> says that exactly this has been
  exported or is held back. The deferred export also comes in part (\<open>exportBatch\<close>: the
  oldest entries first, as many as the timer or the size threshold takes; the system
  description gives no number, so it is a parameter), and a held-back entry can be lost
  (\<open>dropPending\<close>), after which \<open>noSpurious\<close> still holds. All batching processors of the
  process share the one list \<open>pending\<close>; an entry names the exporter it is meant for.
\<close>

section \<open>Operations\<close>

fun onEnd :: "SpanProcessor \<Rightarrow> Span \<Rightarrow> world \<Rightarrow> world" where
  "onEnd (SimpleSpanProcessor e) s w = w\<lparr>exported := exported w @ [(e, s)]\<rparr>"
| "onEnd (BatchSpanProcessor e) s w = w\<lparr>pending := pending w @ [(e, s)]\<rparr>"

text \<open>A provider with several processors passes an ended span to each, in the order added.\<close>

definition onEndAll :: "SpanProcessor list \<Rightarrow> Span \<Rightarrow> world \<Rightarrow> world" where
  "onEndAll ps s w = fold (\<lambda>p. onEnd p s) ps w"

text \<open>The deferred export: everything held back goes to its exporter, oldest first.\<close>

definition batchExport :: "world \<Rightarrow> world" where
  "batchExport w = w\<lparr>exported := exported w @ pending w, pending := []\<rparr>"

text \<open>
  One firing of the batching processor's timer: at most \<open>n\<close> of the held-back entries,
  the oldest, go to their exporter; the rest stay, in order.
\<close>

definition exportBatch :: "nat \<Rightarrow> world \<Rightarrow> world" where
  "exportBatch n w =
     w\<lparr>exported := exported w @ take n (pending w), pending := drop n (pending w)\<rparr>"

text \<open>
  Loss of a held-back entry: the export failed for good, or the process ended before the
  timer fired. The entry at position \<open>i\<close> of the queue disappears; nothing else changes.
\<close>

definition dropPending :: "nat \<Rightarrow> world \<Rightarrow> world" where
  "dropPending i w = w\<lparr>pending := take i (pending w) @ drop (Suc i) (pending w)\<rparr>"

section \<open>What a list of processors delivers\<close>

text \<open>
  \<open>immediate ps s\<close> are the deliveries the simple processors among \<open>ps\<close> make for \<open>s\<close>,
  \<open>deferred ps s\<close> the ones the batching processors hold back.
\<close>

definition immediate :: "SpanProcessor list \<Rightarrow> Span \<Rightarrow> (SpanExporter \<times> Span) list" where
  "immediate ps s = map (\<lambda>p. (exporterOf p, s)) (filter (\<lambda>p. \<not> isBatch p) ps)"

definition deferred :: "SpanProcessor list \<Rightarrow> Span \<Rightarrow> (SpanExporter \<times> Span) list" where
  "deferred ps s = map (\<lambda>p. (exporterOf p, s)) (filter isBatch ps)"

text \<open>
  \<open>deliveries s\<close> is what the pipeline of an ended span \<open>s\<close> owes: one hand-over per
  processor, to that processor's exporter. \<open>owed w\<close> collects the deliveries of every
  ended span of the store, and \<open>conserved w\<close> says that the pipeline holds exactly these,
  each either exported or held back: no ended span is lost and none is handed over
  twice.
\<close>

definition deliveries :: "Span \<Rightarrow> (SpanExporter \<times> Span) list" where
  "deliveries s = map (\<lambda>p. (exporterOf p, s)) (span_processors s)"

definition owed :: "world \<Rightarrow> (SpanExporter \<times> Span) multiset" where
  "owed w = (\<Sum>s \<in># filter_mset isEnded (mset (spans w)). mset (deliveries s))"

definition conserved :: "world \<Rightarrow> bool" where
  "conserved w \<longleftrightarrow> mset (exported w) + mset (pending w) = owed w"

text \<open>
  \<open>gains w w'\<close>: from \<open>w\<close> to \<open>w'\<close> the pipeline has received exactly what became owed. An
  operation with this property keeps \<open>conserved\<close>, and keeps it up to what was lost
  before. \<open>noSpurious w\<close> is the part of \<open>conserved\<close> that survives loss: nothing is in
  the pipeline that is not owed, and nothing is there more often than owed.
\<close>

definition gains :: "world \<Rightarrow> world \<Rightarrow> bool" where
  "gains w w' \<longleftrightarrow>
     (\<exists>G. owed w' = owed w + G
        \<and> mset (exported w') + mset (pending w') = mset (exported w) + mset (pending w) + G)"

definition noSpurious :: "world \<Rightarrow> bool" where
  "noSpurious w \<longleftrightarrow> mset (exported w) + mset (pending w) \<subseteq># owed w"

lemma immediate_simps [simp]:
  "immediate [] s = []"
  "immediate (SimpleSpanProcessor e # ps) s = (e, s) # immediate ps s"
  "immediate (BatchSpanProcessor e # ps) s = immediate ps s"
  by (simp_all add: immediate_def)

lemma deferred_simps [simp]:
  "deferred [] s = []"
  "deferred (SimpleSpanProcessor e # ps) s = deferred ps s"
  "deferred (BatchSpanProcessor e # ps) s = (e, s) # deferred ps s"
  by (simp_all add: deferred_def)

lemma immediate_append [simp]: "immediate (ps @ qs) s = immediate ps s @ immediate qs s"
  by (simp add: immediate_def)

lemma deferred_append [simp]: "deferred (ps @ qs) s = deferred ps s @ deferred qs s"
  by (simp add: deferred_def)

lemma mset_immediate_deferred:
  "mset (immediate ps s) + mset (deferred ps s) = mset (map (\<lambda>p. (exporterOf p, s)) ps)"
proof (induction ps)
  case Nil
  show ?case by simp
next
  case (Cons p ps)
  then show ?case by (cases p) simp_all
qed

section \<open>Effect of the operations\<close>

lemma onEnd_frame [frame, simp]:
  "now (onEnd p s w) = now w"
  "diag (onEnd p s w) = diag w"
  "globalTracerProvider (onEnd p s w) = globalTracerProvider w"
  "spans (onEnd p s w) = spans w"
  by (cases p; simp)+

lemma onEnd_exported: "exported (onEnd p s w) = exported w @ immediate [p] s"
  by (cases p) simp_all

lemma onEnd_pending: "pending (onEnd p s w) = pending w @ deferred [p] s"
  by (cases p) simp_all

lemma onEndAll_Nil [simp]: "onEndAll [] s w = w"
  by (simp add: onEndAll_def)

lemma onEndAll_Cons [simp]: "onEndAll (p # ps) s w = onEndAll ps s (onEnd p s w)"
  by (simp add: onEndAll_def)

lemma onEndAll_frame [frame, simp]:
  "now (onEndAll ps s w) = now w"
  "diag (onEndAll ps s w) = diag w"
  "globalTracerProvider (onEndAll ps s w) = globalTracerProvider w"
  "spans (onEndAll ps s w) = spans w"
  by (induction ps arbitrary: w; simp)+

lemma onEndAll_exported [simp]:
  "exported (onEndAll ps s w) = exported w @ immediate ps s"
  by (induction ps arbitrary: w) (simp_all add: onEnd_exported immediate_def)

lemma onEndAll_pending [simp]:
  "pending (onEndAll ps s w) = pending w @ deferred ps s"
  by (induction ps arbitrary: w) (simp_all add: onEnd_pending deferred_def)

lemma batchExport_frame [frame, simp]:
  "now (batchExport w) = now w"
  "diag (batchExport w) = diag w"
  "globalTracerProvider (batchExport w) = globalTracerProvider w"
  "spans (batchExport w) = spans w"
  by (simp_all add: batchExport_def)

lemma batchExport_simps [simp]:
  "pending (batchExport w) = []"
  "exported (batchExport w) = exported w @ pending w"
  by (simp_all add: batchExport_def)

lemma batchExport_idem [simp]: "batchExport (batchExport w) = batchExport w"
  by (simp add: batchExport_def)

section \<open>Export of a part of the queue\<close>

lemma exportBatch_frame [frame, simp]:
  "now (exportBatch n w) = now w"
  "diag (exportBatch n w) = diag w"
  "globalTracerProvider (exportBatch n w) = globalTracerProvider w"
  "spans (exportBatch n w) = spans w"
  by (simp_all add: exportBatch_def)

lemma exportBatch_simps [simp]:
  "pending (exportBatch n w) = drop n (pending w)"
  "exported (exportBatch n w) = exported w @ take n (pending w)"
  by (simp_all add: exportBatch_def)

lemma exportBatch_keeps_order [simp]:
  "exported (exportBatch n w) @ pending (exportBatch n w) = exported w @ pending w"
  by simp

lemma exportBatch_0 [simp]: "exportBatch 0 w = w"
  by (simp add: exportBatch_def)

lemma batchExport_exportBatch [simp]: "batchExport (exportBatch n w) = batchExport w"
  by (simp add: exportBatch_def batchExport_def)

section \<open>The diagnostic logger\<close>

text \<open>
  No operation of the pipeline reads the diagnostic logger or writes it: installing
  another logger before the operation or after it gives the same world.
\<close>

lemma onEnd_diag [diag_free]: "onEnd p s (w\<lparr>diag := d\<rparr>) = (onEnd p s w)\<lparr>diag := d\<rparr>"
  by (cases p) simp_all

lemma onEndAll_diag [diag_free]:
  "onEndAll ps s (w\<lparr>diag := d\<rparr>) = (onEndAll ps s w)\<lparr>diag := d\<rparr>"
  by (induction ps arbitrary: w) (simp_all add: onEnd_diag)

lemma pipeline_diag [diag_free]:
  "batchExport (w\<lparr>diag := d\<rparr>) = (batchExport w)\<lparr>diag := d\<rparr>"
  "exportBatch n (w\<lparr>diag := d\<rparr>) = (exportBatch n w)\<lparr>diag := d\<rparr>"
  "dropPending i (w\<lparr>diag := d\<rparr>) = (dropPending i w)\<lparr>diag := d\<rparr>"
  by (simp_all add: batchExport_def exportBatch_def dropPending_def)

section \<open>Loss\<close>

lemma dropPending_frame [frame, simp]:
  "now (dropPending i w) = now w"
  "diag (dropPending i w) = diag w"
  "globalTracerProvider (dropPending i w) = globalTracerProvider w"
  "spans (dropPending i w) = spans w"
  "exported (dropPending i w) = exported w"
  by (simp_all add: dropPending_def)

lemma dropPending_pending [simp]:
  "pending (dropPending i w) = take i (pending w) @ drop (Suc i) (pending w)"
  by (simp add: dropPending_def)

lemma dropPending_invalid [simp]: "length (pending w) \<le> i \<Longrightarrow> dropPending i w = w"
  by (simp add: dropPending_def)

lemma mset_dropPending: "mset (pending (dropPending i w)) \<subseteq># mset (pending w)"
  by (simp only: dropPending_pending mset_remove_nth)

section \<open>Conservation\<close>

lemma mset_deliveries:
  "mset (immediate (span_processors s) s) + mset (deferred (span_processors s) s) =
     mset (deliveries s)"
  by (simp add: deliveries_def mset_immediate_deferred)

lemma owed_cong:
  "filter_mset isEnded (mset (spans w')) = filter_mset isEnded (mset (spans w)) \<Longrightarrow>
   owed w' = owed w"
  by (simp add: owed_def)

lemma owed_snoc:
  "owed (w\<lparr>spans := spans w @ [s]\<rparr>) =
     owed w + (if isEnded s then mset (deliveries s) else {#})"
  by (simp add: owed_def)

lemma owed_member:
  "x \<in># owed w \<Longrightarrow>
   isEnded (snd x) \<and> snd x \<in> set (spans w) \<and> fst x \<in> exporterOf ` set (span_processors (snd x))"
  by (auto simp: owed_def deliveries_def)

lemma owed_frame [simp]:
  "owed (onEnd p s w) = owed w"
  "owed (onEndAll ps s w) = owed w"
  "owed (batchExport w) = owed w"
  "owed (exportBatch n w) = owed w"
  by (simp_all add: owed_def)

lemma conserved_initial [simp]: "conserved (initial_world t)"
  by (simp add: conserved_def owed_def)

lemma conserved_batchExport [simp]: "conserved (batchExport w) \<longleftrightarrow> conserved w"
  by (simp add: conserved_def ac_simps)

lemma conserved_exportBatch [simp]: "conserved (exportBatch n w) \<longleftrightarrow> conserved w"
proof -
  have "mset (take n (pending w)) + mset (drop n (pending w)) = mset (pending w)"
    by (simp flip: mset_append)
  then show ?thesis by (simp add: conserved_def ac_simps)
qed

lemma gainsI:
  "owed w' = owed w + G \<Longrightarrow>
   mset (exported w') + mset (pending w') = mset (exported w) + mset (pending w) + G \<Longrightarrow>
   gains w w'"
  unfolding gains_def by blast

lemma gains_same:
  "owed w' = owed w \<Longrightarrow> mset (exported w') + mset (pending w') = mset (exported w) + mset (pending w)
   \<Longrightarrow> gains w w'"
  by (rule gainsI [where G = "{#}"]) simp_all

lemma gains_refl [simp]: "gains w w"
  by (simp add: gains_same)

lemma gains_trans: "gains w w' \<Longrightarrow> gains w' w'' \<Longrightarrow> gains w w''"
  unfolding gains_def by (metis (no_types, lifting) add.assoc)

lemma gains_conserved: "gains w w' \<Longrightarrow> conserved w \<Longrightarrow> conserved w'"
  by (auto simp: gains_def conserved_def)

lemma gains_noSpurious: "gains w w' \<Longrightarrow> noSpurious w \<Longrightarrow> noSpurious w'"
  by (auto simp: gains_def noSpurious_def)

lemma gains_exports [simp]: "gains w (batchExport w)" "gains w (exportBatch n w)"
proof -
  have "mset (take n (pending w)) + mset (drop n (pending w)) = mset (pending w)"
    by (simp flip: mset_append)
  then show "gains w (batchExport w)" "gains w (exportBatch n w)"
    by (simp_all add: gains_same ac_simps)
qed

lemma conserved_noSpurious: "conserved w \<Longrightarrow> noSpurious w"
  by (simp add: conserved_def noSpurious_def)

lemma noSpurious_dropPending: "noSpurious w \<Longrightarrow> noSpurious (dropPending i w)"
proof -
  assume "noSpurious w"
  moreover have "owed (dropPending i w) = owed w" by (simp add: owed_def)
  moreover have "mset (exported (dropPending i w)) + mset (pending (dropPending i w)) \<subseteq>#
      mset (exported w) + mset (pending w)"
    using mset_dropPending [of i w] by simp
  ultimately show ?thesis
    unfolding noSpurious_def by (metis subset_mset.order_trans)
qed

lemma noSpurious_member:
  assumes "noSpurious w" and "(e, s) \<in> set (exported w) \<union> set (pending w)"
  shows "isEnded s" and "s \<in> set (spans w)" and "e \<in> exporterOf ` set (span_processors s)"
proof -
  from assms(2) have "(e, s) \<in># mset (exported w) + mset (pending w)" by simp
  with assms(1) have "(e, s) \<in># owed w"
    unfolding noSpurious_def by (rule mset_subset_eqD)
  from owed_member [OF this]
  show "isEnded s" and "s \<in> set (spans w)" and "e \<in> exporterOf ` set (span_processors s)"
    by simp_all
qed

lemma conserved_now_update [simp]: "conserved (w\<lparr>now := t\<rparr>) \<longleftrightarrow> conserved w"
  by (simp add: conserved_def owed_def)

lemma conserved_member:
  assumes "conserved w" and "(e, s) \<in> set (exported w) \<union> set (pending w)"
  shows "isEnded s" and "s \<in> set (spans w)" and "e \<in> exporterOf ` set (span_processors s)"
proof -
  from assms(1) have "owed w = mset (exported w) + mset (pending w)"
    by (simp add: conserved_def)
  with assms(2) have "(e, s) \<in># owed w" by simp
  from owed_member [OF this]
  show "isEnded s" and "s \<in> set (spans w)" and "e \<in> exporterOf ` set (span_processors s)"
    by simp_all
qed

section \<open>Worlds that differ in the diagnostic logger\<close>

lemma sameButDiag_owed: "sameButDiag w w' \<Longrightarrow> owed w = owed w'"
  by (simp add: sameButDiag_def owed_def)

lemma sameButDiag_gains: "sameButDiag w' w \<Longrightarrow> gains w w'"
  by (rule gains_same) (simp_all add: sameButDiag_owed, simp add: sameButDiag_def)

end
