(* ===== verification/Span.thy ===== *)
theory Span
  imports Pipeline
begin

text \<open>
  The three calls the adapter makes on a tracer and on a span: \<^verbatim>\<open>tracer.startSpan\<close>,
  \<^verbatim>\<open>span.setAttributes\<close> and \<^verbatim>\<open>span.end\<close>, over the span store of the world. A span
  is open from its start until its first \<^verbatim>\<open>end\<close>; only an open span takes attributes,
  and only the first \<^verbatim>\<open>end\<close> passes it to the processors. The lemmas give each call's
  effect on the store and on the pipeline, and the life cycle facts: no reopening, no
  second close, nothing written after the close.
\<close>

section \<open>Operations\<close>

text \<open>
  The span a tracer creates: recording, with the resource and processors of the
  registered provider, or the span that ignores every call when none is registered.
\<close>

definition newSpan :: "BasicTracerProvider option \<Rightarrow> string \<Rightarrow> string \<Rightarrow> TimeInput \<Rightarrow> Span" where
  "newSpan provider scope name startTime =
     \<lparr>span_name = name, span_scope = scope, span_startTime = startTime,
      span_attributes = Map.empty, span_endTime = None,
      span_resource = (case provider of None \<Rightarrow> [] | Some p \<Rightarrow> resource p),
      span_processors = (case provider of None \<Rightarrow> [] | Some p \<Rightarrow> processors p),
      span_recording = (provider \<noteq> None)\<rparr>"

primrec startSpan :: "Tracer \<Rightarrow> string \<Rightarrow> TimeInput \<Rightarrow> world \<Rightarrow> SpanHandle \<times> world" where
  "startSpan (ProxyTracer scope) name startTime w =
     (length (spans w),
      w\<lparr>spans := spans w @ [newSpan (globalTracerProvider w) scope name startTime]\<rparr>)"

text \<open>
  Each key of \<open>attrs\<close> is written into the span's attributes, replacing the value of a
  key that is there already. A span that has ended, or does not record, is not changed.
  A handle is an object reference in the program, so one that was never handed out
  cannot occur; the model leaves the world as it is for such an index.
\<close>

definition setAttributes :: "SpanHandle \<Rightarrow> Attributes \<Rightarrow> world \<Rightarrow> world" where
  "setAttributes h attrs w =
     (if h < length (spans w) \<and> isOpen (spans w ! h)
      then w\<lparr>spans := (spans w)[h := (spans w ! h)\<lparr>span_attributes := span_attributes (spans w ! h) ++ attrs\<rparr>]\<rparr>
      else w)"

text \<open>
  The first \<^verbatim>\<open>end\<close> of a recording span fixes its end time, the given one or else the
  current time, and passes the span to each processor of its pipeline. Any later
  \<^verbatim>\<open>end\<close> does nothing.
\<close>

definition endSpan :: "SpanHandle \<Rightarrow> TimeInput option \<Rightarrow> world \<Rightarrow> world" where
  "endSpan h endTime w =
     (if h < length (spans w) \<and> isOpen (spans w ! h)
      then let s = (spans w ! h)\<lparr>span_endTime := Some (nullish endTime (now w))\<rparr>
           in onEndAll (span_processors s) s (w\<lparr>spans := (spans w)[h := s]\<rparr>)
      else w)"

text \<open>
  The life cycle of a span, as a relation between the values a span has before and
  after a call on it: an open span takes attributes, an open span is closed. Nothing
  else happens to a span.
\<close>

inductive lifecycle :: "Span \<Rightarrow> Span \<Rightarrow> bool" where
    annotate: "isOpen sp \<Longrightarrow>
      lifecycle sp (sp\<lparr>span_attributes := span_attributes sp ++ attrs\<rparr>)"
  | close: "isOpen sp \<Longrightarrow> lifecycle sp (sp\<lparr>span_endTime := Some t\<rparr>)"

inductive_cases lifecycleE [elim]: "lifecycle sp sp'"

lemmas span_ops [sdk_defs] = setAttributes_def endSpan_def

section \<open>New spans\<close>

lemma newSpan_simps [simp]:
  "span_name (newSpan pr sc n t) = n"
  "span_scope (newSpan pr sc n t) = sc"
  "span_startTime (newSpan pr sc n t) = t"
  "span_attributes (newSpan pr sc n t) = Map.empty"
  "span_endTime (newSpan pr sc n t) = None"
  "span_recording (newSpan pr sc n t) \<longleftrightarrow> pr \<noteq> None"
  "span_resource (newSpan (Some p) sc n t) = resource p"
  "span_processors (newSpan (Some p) sc n t) = processors p"
  "span_resource (newSpan None sc n t) = []"
  "span_processors (newSpan None sc n t) = []"
  by (simp_all add: newSpan_def)

lemma newSpan_processors [simp]:
  "span_processors (newSpan (globalTracerProvider w) sc n t) = providerProcessors w"
  by (cases "globalTracerProvider w") simp_all

lemma isOpen_newSpan [simp]: "isOpen (newSpan pr sc n t) \<longleftrightarrow> pr \<noteq> None"
  by (simp add: isOpen_def)

lemma not_isEnded_newSpan [simp]: "\<not> isEnded (newSpan pr sc n t)"
  by (simp add: isEnded_def)

lemma startSpan_handle [simp]: "fst (startSpan t n st w) = length (spans w)"
  by (cases t) simp

lemma startSpan_spans:
  "spans (snd (startSpan (ProxyTracer sc) n st w)) =
     spans w @ [newSpan (globalTracerProvider w) sc n st]"
  by simp

lemma startSpan_frame [frame, simp]:
  "now (snd (startSpan t n st w)) = now w"
  "diag (snd (startSpan t n st w)) = diag w"
  "globalTracerProvider (snd (startSpan t n st w)) = globalTracerProvider w"
  "pending (snd (startSpan t n st w)) = pending w"
  "exported (snd (startSpan t n st w)) = exported w"
  by (cases t; simp)+

lemma startSpan_length [simp]: "length (spans (snd (startSpan t n st w))) = Suc (length (spans w))"
  by (cases t) simp

lemma startSpan_old [simp]:
  "h < length (spans w) \<Longrightarrow> spans (snd (startSpan t n st w)) ! h = spans w ! h"
  by (cases t) simp

section \<open>Setting attributes\<close>

lemma setAttributes_last:
  "setAttributes (length xs) a (w\<lparr>spans := xs @ [s]\<rparr>) =
     w\<lparr>spans := xs @ [if isOpen s then s\<lparr>span_attributes := span_attributes s ++ a\<rparr> else s]\<rparr>"
  by (simp add: setAttributes_def)

lemma setAttributes_spans:
  "spans (setAttributes h a w) =
     (if h < length (spans w) \<and> isOpen (spans w ! h)
      then (spans w)[h := (spans w ! h)\<lparr>span_attributes := span_attributes (spans w ! h) ++ a\<rparr>]
      else spans w)"
  by (simp add: setAttributes_def)

lemma setAttributes_frame [frame, simp]:
  "now (setAttributes h a w) = now w"
  "diag (setAttributes h a w) = diag w"
  "globalTracerProvider (setAttributes h a w) = globalTracerProvider w"
  "pending (setAttributes h a w) = pending w"
  "exported (setAttributes h a w) = exported w"
  by (simp_all add: setAttributes_def)

lemma setAttributes_length [simp]: "length (spans (setAttributes h a w)) = length (spans w)"
  by (simp add: setAttributes_def)

lemma setAttributes_other [simp]:
  "h' \<noteq> h \<Longrightarrow> spans (setAttributes h a w) ! h' = spans w ! h'"
  by (simp add: setAttributes_def)

lemma setAttributes_open:
  "h < length (spans w) \<Longrightarrow> isOpen (spans w ! h) \<Longrightarrow>
   spans (setAttributes h a w) ! h =
     (spans w ! h)\<lparr>span_attributes := span_attributes (spans w ! h) ++ a\<rparr>"
  by (simp add: setAttributes_def)

lemma setAttributes_not_open [simp]:
  "\<not> isOpen (spans w ! h) \<Longrightarrow> setAttributes h a w = w"
  by (simp add: setAttributes_def)

lemma setAttributes_invalid [simp]: "length (spans w) \<le> h \<Longrightarrow> setAttributes h a w = w"
  by (simp add: setAttributes_def)

lemma setAttributes_isOpen [simp]:
  "isOpen (spans (setAttributes h a w) ! h') \<longleftrightarrow> isOpen (spans w ! h')"
  by (cases "h' = h") (auto simp: setAttributes_def isOpen_def)

lemma setAttributes_isEnded [simp]:
  "isEnded (spans (setAttributes h a w) ! h') \<longleftrightarrow> isEnded (spans w ! h')"
  by (cases "h' = h") (auto simp: setAttributes_def isEnded_def)

lemma setAttributes_twice:
  "setAttributes h b (setAttributes h a w) = setAttributes h (a ++ b) w"
  by (simp add: setAttributes_def isOpen_def)

section \<open>Ending a span\<close>

lemma endSpan_last:
  "endSpan (length xs) t (w\<lparr>spans := xs @ [s]\<rparr>) =
     (if isOpen s
      then onEndAll (span_processors s) (s\<lparr>span_endTime := Some (nullish t (now w))\<rparr>)
             (w\<lparr>spans := xs @ [s\<lparr>span_endTime := Some (nullish t (now w))\<rparr>]\<rparr>)
      else w\<lparr>spans := xs @ [s]\<rparr>)"
  by (simp add: endSpan_def Let_def)

lemma endSpan_spans:
  "spans (endSpan h t w) =
     (if h < length (spans w) \<and> isOpen (spans w ! h)
      then (spans w)[h := (spans w ! h)\<lparr>span_endTime := Some (nullish t (now w))\<rparr>]
      else spans w)"
  by (simp add: endSpan_def Let_def)

lemma endSpan_not_open [simp]: "\<not> isOpen (spans w ! h) \<Longrightarrow> endSpan h t w = w"
  by (simp add: endSpan_def)

lemma endSpan_invalid [simp]: "length (spans w) \<le> h \<Longrightarrow> endSpan h t w = w"
  by (simp add: endSpan_def)

lemma endSpan_frame [frame, simp]:
  "now (endSpan h t w) = now w"
  "diag (endSpan h t w) = diag w"
  "globalTracerProvider (endSpan h t w) = globalTracerProvider w"
  by (simp_all add: endSpan_def Let_def)

lemma endSpan_length [simp]: "length (spans (endSpan h t w)) = length (spans w)"
  by (simp add: endSpan_def Let_def)

lemma endSpan_other [simp]:
  "h' \<noteq> h \<Longrightarrow> spans (endSpan h t w) ! h' = spans w ! h'"
  by (simp add: endSpan_def Let_def)

lemma endSpan_open:
  assumes "h < length (spans w)" and "isOpen (spans w ! h)"
  shows "spans (endSpan h t w) ! h = (spans w ! h)\<lparr>span_endTime := Some (nullish t (now w))\<rparr>"
    and "exported (endSpan h t w) =
           exported w @ immediate (span_processors (spans w ! h)) (spans (endSpan h t w) ! h)"
    and "pending (endSpan h t w) =
           pending w @ deferred (span_processors (spans w ! h)) (spans (endSpan h t w) ! h)"
  using assms by (simp_all add: endSpan_def Let_def)

lemma endSpan_isEnded:
  "h < length (spans w) \<Longrightarrow> isOpen (spans w ! h) \<Longrightarrow> isEnded (spans (endSpan h t w) ! h)"
  by (simp add: endSpan_open isOpen_def isEnded_def)

lemma endSpan_closes [simp]: "h < length (spans w) \<Longrightarrow> \<not> isOpen (spans (endSpan h t w) ! h)"
  by (cases "isOpen (spans w ! h)") (simp_all add: endSpan_open isOpen_def)

lemma endSpan_twice [simp]: "endSpan h t' (endSpan h t w) = endSpan h t w"
proof (cases "h < length (spans w)")
  case True
  then have "\<not> isOpen (spans (endSpan h t w) ! h)" by simp
  then show ?thesis by simp
next
  case False
  then show ?thesis by simp
qed

lemma setAttributes_after_end [simp]: "setAttributes h a (endSpan h t w) = endSpan h t w"
proof (cases "h < length (spans w)")
  case True
  then have "\<not> isOpen (spans (endSpan h t w) ! h)" by simp
  then show ?thesis by simp
next
  case False
  then show ?thesis by simp
qed

section \<open>What the calls never change\<close>

text \<open>
  A property of spans that does not look at the attributes is kept by \<open>setAttributes\<close>,
  one that does not look at the end time by \<open>endSpan\<close>; and a span that has ended is
  not changed by either.
\<close>

lemma list_all_spans_setAttributes:
  assumes "\<And>s m. P (s\<lparr>span_attributes := m\<rparr>) = P s"
  shows "list_all P (spans (setAttributes h a w)) = list_all P (spans w)"
  using assms by (simp add: setAttributes_def list_all_update_same)

lemma list_all_spans_endSpan:
  assumes "\<And>s t. P (s\<lparr>span_endTime := t\<rparr>) = P s"
  shows "list_all P (spans (endSpan h t w)) = list_all P (spans w)"
  using assms by (simp add: endSpan_def Let_def list_all_update_same)

lemma list_all_drop_spans_setAttributes:
  assumes "\<And>s m. P (s\<lparr>span_attributes := m\<rparr>) = P s"
  shows "list_all P (drop n (spans (setAttributes h a w))) = list_all P (drop n (spans w))"
  using assms by (simp add: setAttributes_spans list_all_drop_update_same)

lemma list_all_drop_spans_endSpan:
  assumes "\<And>s t. P (s\<lparr>span_endTime := t\<rparr>) = P s"
  shows "list_all P (drop n (spans (endSpan h t w))) = list_all P (drop n (spans w))"
  using assms by (simp add: endSpan_spans list_all_drop_update_same)

lemma ended_immutable_setAttributes:
  "isEnded (spans w ! h) \<Longrightarrow> spans (setAttributes h' a w) ! h = spans w ! h"
  by (cases "h' = h") (simp_all add: isEnded_not_isOpen)

lemma ended_immutable_endSpan:
  "isEnded (spans w ! h) \<Longrightarrow> spans (endSpan h' t w) ! h = spans w ! h"
  by (cases "h' = h") (simp_all add: isEnded_not_isOpen)

section \<open>The diagnostic logger\<close>

text \<open>The three calls commute with a change of the diagnostic logger.\<close>

lemma startSpan_diag [diag_free]:
  "startSpan t n st (w\<lparr>diag := d\<rparr>) =
     (fst (startSpan t n st w), (snd (startSpan t n st w))\<lparr>diag := d\<rparr>)"
  by (cases t) simp

lemma setAttributes_diag [diag_free]:
  "setAttributes h a (w\<lparr>diag := d\<rparr>) = (setAttributes h a w)\<lparr>diag := d\<rparr>"
  by (simp add: setAttributes_def)

lemma endSpan_diag [diag_free]:
  "endSpan h t (w\<lparr>diag := d\<rparr>) = (endSpan h t w)\<lparr>diag := d\<rparr>"
  by (simp add: endSpan_def Let_def onEndAll_diag)

section \<open>The life cycle\<close>

lemma lifecycle_isOpen: "lifecycle sp sp' \<Longrightarrow> isOpen sp"
  by (erule lifecycleE)

lemma lifecycle_keeps:
  assumes "lifecycle sp sp'"
  shows "span_name sp' = span_name sp" and "span_scope sp' = span_scope sp"
    and "span_startTime sp' = span_startTime sp" and "span_resource sp' = span_resource sp"
    and "span_processors sp' = span_processors sp" and "span_recording sp' = span_recording sp"
  using assms by (auto elim!: lifecycleE)

lemma lifecycle_not_reopened: "lifecycle sp sp' \<Longrightarrow> isEnded sp' \<or> isOpen sp'"
  by (auto elim!: lifecycleE simp: isOpen_def isEnded_def)

lemma lifecycles_ended:
  assumes "lifecycle\<^sup>*\<^sup>* sp sp'" and "isEnded sp"
  shows "sp' = sp"
  using assms by (induction rule: rtranclp_induct) (auto dest: lifecycle_isOpen isEnded_not_isOpen)

lemma lifecycles_keep:
  assumes "lifecycle\<^sup>*\<^sup>* sp sp'"
  shows "span_name sp' = span_name sp \<and> span_scope sp' = span_scope sp
       \<and> span_startTime sp' = span_startTime sp \<and> span_resource sp' = span_resource sp
       \<and> span_processors sp' = span_processors sp \<and> span_recording sp' = span_recording sp"
  using assms by (induction rule: rtranclp_induct) (simp_all add: lifecycle_keeps)

lemma setAttributes_lifecycle:
  "h' < length (spans w) \<Longrightarrow> lifecycle\<^sup>=\<^sup>= (spans w ! h') (spans (setAttributes h a w) ! h')"
  by (auto simp: setAttributes_spans nth_list_update intro: lifecycle.annotate)

lemma endSpan_lifecycle:
  "h' < length (spans w) \<Longrightarrow> lifecycle\<^sup>=\<^sup>= (spans w ! h') (spans (endSpan h t w) ! h')"
  by (auto simp: endSpan_spans nth_list_update intro: lifecycle.close)

section \<open>Conservation\<close>

lemma owed_startSpan [simp]: "owed (snd (startSpan t n st w)) = owed w"
  by (cases t) (simp add: owed_snoc)

lemma conserved_startSpan [simp]: "conserved (snd (startSpan t n st w)) \<longleftrightarrow> conserved w"
  by (simp add: conserved_def)

lemma filter_isEnded_setAttributes [simp]:
  "filter isEnded (spans (setAttributes h a w)) = filter isEnded (spans w)"
  by (simp add: setAttributes_spans filter_update_unchanged isOpen_def isEnded_def)

lemma owed_setAttributes [simp]: "owed (setAttributes h a w) = owed w"
proof -
  have "filter_mset isEnded (mset (spans (setAttributes h a w))) =
      filter_mset isEnded (mset (spans w))"
    by (simp flip: mset_filter)
  then show ?thesis by (rule owed_cong)
qed

lemma conserved_setAttributes [simp]: "conserved (setAttributes h a w) \<longleftrightarrow> conserved w"
  by (simp add: conserved_def)

lemma endSpan_gain:
  assumes "h < length (spans w)" and "isOpen (spans w ! h)"
  shows "owed (endSpan h t w) = owed w + mset (deliveries (spans (endSpan h t w) ! h))"
    and "mset (exported (endSpan h t w)) + mset (pending (endSpan h t w)) =
           mset (exported w) + mset (pending w) + mset (deliveries (spans (endSpan h t w) ! h))"
proof -
  let ?s = "(spans w ! h)\<lparr>span_endTime := Some (nullish t (now w))\<rparr>"
  from assms have s: "spans (endSpan h t w) ! h = ?s" by (simp add: endSpan_open)
  from assms have "isEnded ?s" and "\<not> isEnded (spans w ! h)"
    by (simp_all add: isOpen_def isEnded_def)
  with assms(1) have "filter_mset isEnded (mset ((spans w)[h := ?s])) =
      add_mset ?s (filter_mset isEnded (mset (spans w)))"
    by (simp add: filter_mset_update_gain)
  with assms show "owed (endSpan h t w) = owed w + mset (deliveries (spans (endSpan h t w) ! h))"
    unfolding s by (simp add: owed_def endSpan_def Let_def)
  from assms mset_deliveries [of ?s]
  show "mset (exported (endSpan h t w)) + mset (pending (endSpan h t w)) =
      mset (exported w) + mset (pending w) + mset (deliveries (spans (endSpan h t w) ! h))"
    unfolding s by (simp add: endSpan_def Let_def ac_simps)
qed

lemma gains_endSpan [simp]: "gains w (endSpan h t w)"
proof (cases "h < length (spans w) \<and> isOpen (spans w ! h)")
  case True
  with endSpan_gain [of h w t] show ?thesis by (intro gainsI) simp_all
next
  case False
  then show ?thesis by (auto simp: endSpan_def)
qed

lemma gains_setAttributes [simp]: "gains w (setAttributes h a w)"
  by (simp add: gains_same)

lemma conserved_endSpan: "conserved w \<Longrightarrow> conserved (endSpan h t w)"
  by (rule gains_conserved [OF gains_endSpan])

end
