(* ===== verification/Trace_Api.thy ===== *)
theory Trace_Api
  imports Span
begin

text \<open>
  The process-wide calls the adapter makes outside any span: adding a processor to a
  provider that is being built, registering the provider, disabling tracing, asking for
  a tracer, installing the diagnostic logger, and reading the clock. Registration
  replaces the provider registered before; disabling leaves none.
\<close>

section \<open>Operations\<close>

definition addSpanProcessor :: "SpanProcessor \<Rightarrow> BasicTracerProvider \<Rightarrow> BasicTracerProvider" where
  "addSpanProcessor sp provider = provider\<lparr>processors := processors provider @ [sp]\<rparr>"

definition register :: "BasicTracerProvider \<Rightarrow> world \<Rightarrow> world" where
  "register provider w = w\<lparr>globalTracerProvider := Some provider\<rparr>"

definition disable :: "world \<Rightarrow> world" where
  "disable w = w\<lparr>globalTracerProvider := None\<rparr>"

definition getTracer :: "string \<Rightarrow> world \<Rightarrow> Tracer" where
  "getTracer name w = ProxyTracer name"

definition setLogger :: "DiagLogger \<Rightarrow> DiagLogLevel \<Rightarrow> world \<Rightarrow> world" where
  "setLogger logger level w = w\<lparr>diag := Some (logger, level)\<rparr>"

definition Date_now :: "world \<Rightarrow> TimeInput" where
  "Date_now w = now w"

lemmas trace_api_ops [sdk_defs] =
  addSpanProcessor_def register_def disable_def getTracer_def setLogger_def Date_now_def

section \<open>Effect of the operations\<close>

lemma addSpanProcessor_simps [simp]:
  "processors (addSpanProcessor sp p) = processors p @ [sp]"
  "resource (addSpanProcessor sp p) = resource p"
  by (simp_all add: addSpanProcessor_def)

lemma register_simps [simp]:
  "globalTracerProvider (register p w) = Some p"
  "now (register p w) = now w"
  "diag (register p w) = diag w"
  "spans (register p w) = spans w"
  "pending (register p w) = pending w"
  "exported (register p w) = exported w"
  by (simp_all add: register_def)

lemma disable_simps [simp]:
  "globalTracerProvider (disable w) = None"
  "now (disable w) = now w"
  "diag (disable w) = diag w"
  "spans (disable w) = spans w"
  "pending (disable w) = pending w"
  "exported (disable w) = exported w"
  by (simp_all add: disable_def)

lemma setLogger_simps [simp]:
  "diag (setLogger l v w) = Some (l, v)"
  "now (setLogger l v w) = now w"
  "globalTracerProvider (setLogger l v w) = globalTracerProvider w"
  "spans (setLogger l v w) = spans w"
  "pending (setLogger l v w) = pending w"
  "exported (setLogger l v w) = exported w"
  by (simp_all add: setLogger_def)

lemma getTracer_simp [simp]: "getTracer name w = ProxyTracer name"
  by (simp add: getTracer_def)

lemma Date_now_simp [simp]: "Date_now w = now w"
  by (simp add: Date_now_def)

lemma register_twice [simp]: "register q (register p w) = register q w"
  by (simp add: register_def)

lemma disable_register [simp]: "disable (register p w) = disable w"
  by (simp add: register_def disable_def)

lemma disable_idem [simp]: "disable (disable w) = disable w"
  by (simp add: disable_def)

section \<open>Conservation\<close>

lemma owed_trace_api [simp]:
  "owed (register p w) = owed w"
  "owed (disable w) = owed w"
  "owed (setLogger l v w) = owed w"
  by (simp_all add: owed_def)

lemma conserved_trace_api [simp]:
  "conserved (register p w) \<longleftrightarrow> conserved w"
  "conserved (disable w) \<longleftrightarrow> conserved w"
  "conserved (setLogger l v w) \<longleftrightarrow> conserved w"
  by (simp_all add: conserved_def)

end
