(* ===== verification/Provider.thy ===== *)
theory Provider
  imports Trace_Api
begin

text \<open>
  The adapter itself: the class \<^verbatim>\<open>OpenTelemetryProvider\<close> of
  \<^verbatim>\<open>src/telemetry/openTelemetryProvider.ts\<close>. Its two fields are a record, its constructor
  and its four methods are one definition each, taking the world and returning it
  changed. The lemmas of this theory give the effect of every method on the span store
  and on the pipeline; the properties with a claim id are the ones the adapter is relied
  on for.
\<close>

section \<open>Data\<close>

text \<open>The fields of the context that the constructor reads.\<close>

record TelemetryContext =
  extensionVersion :: string
  env :: string
  machineId :: string
  platform :: string
  extensionId :: string
  sessionId :: string
  language :: string
  vscodeEdition :: string
  vscodeVersion :: string
  vscodeHost :: string

record OpenTelemetryProvider =
  globalAttributes :: Attributes
  tracer :: Tracer

section \<open>Construction\<close>

definition resourceOf :: "TelemetryContext \<Rightarrow> Resource" where
  "resourceOf context =
     [(SERVICE_NAME, ''gitlens''),
      (SERVICE_VERSION, extensionVersion context),
      (DEPLOYMENT_ENVIRONMENT, env context),
      (DEVICE_ID, machineId context),
      (OS_TYPE, platform context),
      (Key ''extension.id'', extensionId context),
      (Key ''session.id'', sessionId context),
      (Key ''language'', language context),
      (Key ''vscode.edition'', vscodeEdition context),
      (Key ''vscode.version'', vscodeVersion context),
      (Key ''vscode.host'', vscodeHost context)]"

definition devEndpoint :: string where
  "devEndpoint = ''https://otel-dev.gitkraken.com:4318/v1/traces''"

definition prodEndpoint :: string where
  "prodEndpoint = ''https://otel.gitkraken.com:4318/v1/traces''"

definition exporterUrl :: "bool option \<Rightarrow> string" where
  "exporterUrl debugging = (if truthy debugging then devEndpoint else prodEndpoint)"

definition exporterOptions :: "HttpsProxyAgent option \<Rightarrow> bool option \<Rightarrow> OTLPExporterConfig" where
  "exporterOptions agent debugging =
     \<lparr>url = exporterUrl debugging,
      compression = ''gzip'',
      httpAgentOptions = map_option options agent\<rparr>"

definition newExporter :: "HttpsProxyAgent option \<Rightarrow> bool option \<Rightarrow> SpanExporter" where
  "newExporter agent debugging = OTLPTraceExporter (exporterOptions agent debugging)"

definition exportProcessor :: "bool option \<Rightarrow> SpanExporter \<Rightarrow> SpanProcessor" where
  "exportProcessor debugging exporter =
     (if truthy debugging then SimpleSpanProcessor exporter else BatchSpanProcessor exporter)"

definition constructor ::
  "TelemetryContext \<Rightarrow> HttpsProxyAgent option \<Rightarrow> bool option \<Rightarrow> world
     \<Rightarrow> OpenTelemetryProvider \<times> world" where
  "constructor context agent debugging w =
     (let provider = \<lparr>resource = resourceOf context, processors = []\<rparr>;
          w = (if truthy debugging then setLogger DiagConsoleLogger VERBOSE w else w);
          provider = (if truthy debugging
                      then addSpanProcessor (SimpleSpanProcessor ConsoleSpanExporter) provider
                      else provider);
          exporter = newExporter agent debugging;
          provider = addSpanProcessor (exportProcessor debugging exporter) provider;
          w = register provider w
      in (\<lparr>globalAttributes = Map.empty, tracer = getTracer (extensionId context) w\<rparr>, w))"

section \<open>Methods\<close>

definition dispose :: "OpenTelemetryProvider \<Rightarrow> world \<Rightarrow> world" where
  "dispose this w = disable w"

definition sendEvent ::
  "OpenTelemetryProvider \<Rightarrow> string \<Rightarrow> Attributes option \<Rightarrow> TimeInput option
     \<Rightarrow> TimeInput option \<Rightarrow> world \<Rightarrow> world" where
  "sendEvent this name data startTime endTime w =
     (let (span, w) = startSpan (tracer this) name (nullish startTime (Date_now w)) w;
          w = setAttributes span (globalAttributes this) w;
          w = (case data of None \<Rightarrow> w | Some d \<Rightarrow> setAttributes span d w)
      in endSpan span endTime w)"

definition startEvent ::
  "OpenTelemetryProvider \<Rightarrow> string \<Rightarrow> Attributes option \<Rightarrow> TimeInput option
     \<Rightarrow> world \<Rightarrow> SpanHandle \<times> world" where
  "startEvent this name data startTime w =
     (let (span, w) = startSpan (tracer this) name (nullish startTime (Date_now w)) w;
          w = setAttributes span (globalAttributes this) w;
          w = (case data of None \<Rightarrow> w | Some d \<Rightarrow> setAttributes span d w)
      in (span, w))"

definition setGlobalAttributes ::
  "OpenTelemetryProvider \<Rightarrow> AttributeMap \<Rightarrow> OpenTelemetryProvider" where
  "setGlobalAttributes this attributes = this\<lparr>globalAttributes := fromEntriesMap attributes\<rparr>"

section \<open>Reference values\<close>

text \<open>
  What the methods are expected to produce, written directly rather than as a sequence
  of SDK calls. \<open>eventAttributes\<close> are the attributes of an event: the global ones with
  the event's own laid over them. \<open>openedSpan\<close> is the span \<^verbatim>\<open>startEvent\<close> hands out in
  world \<open>w\<close> and \<open>sentSpan\<close> the one \<^verbatim>\<open>sendEvent\<close> leaves behind; without a registered
  provider both are the span that records nothing. \<open>pipelineOf\<close> and \<open>builtProvider\<close> are
  the processors and the provider the constructor registers.
\<close>

definition eventAttributes :: "OpenTelemetryProvider \<Rightarrow> Attributes option \<Rightarrow> Attributes" where
  "eventAttributes this data =
     globalAttributes this ++ (case data of None \<Rightarrow> Map.empty | Some d \<Rightarrow> d)"

definition openedSpan ::
  "world \<Rightarrow> OpenTelemetryProvider \<Rightarrow> string \<Rightarrow> Attributes option \<Rightarrow> TimeInput option \<Rightarrow> Span" where
  "openedSpan w this name data startTime =
     (newSpan (globalTracerProvider w) (scopeOf (tracer this)) name (nullish startTime (now w)))
       \<lparr>span_attributes :=
          (if globalTracerProvider w = None then Map.empty else eventAttributes this data)\<rparr>"

definition sentSpan ::
  "world \<Rightarrow> OpenTelemetryProvider \<Rightarrow> string \<Rightarrow> Attributes option \<Rightarrow> TimeInput option
     \<Rightarrow> TimeInput option \<Rightarrow> Span" where
  "sentSpan w this name data startTime endTime =
     (openedSpan w this name data startTime)
       \<lparr>span_endTime :=
          (if globalTracerProvider w = None then None else Some (nullish endTime (now w)))\<rparr>"

definition pipelineOf :: "HttpsProxyAgent option \<Rightarrow> bool option \<Rightarrow> SpanProcessor list" where
  "pipelineOf agent debugging =
     (if truthy debugging
      then [SimpleSpanProcessor ConsoleSpanExporter,
            SimpleSpanProcessor (newExporter agent debugging)]
      else [BatchSpanProcessor (newExporter agent debugging)])"

definition builtProvider ::
  "TelemetryContext \<Rightarrow> HttpsProxyAgent option \<Rightarrow> bool option \<Rightarrow> BasicTracerProvider" where
  "builtProvider context agent debugging =
     \<lparr>resource = resourceOf context, processors = pipelineOf agent debugging\<rparr>"

text \<open>A context to run the methods on, for the worked instances of the properties.\<close>

definition exampleContext :: TelemetryContext where
  "exampleContext =
     \<lparr>extensionVersion = ''14.0.0'', env = ''production'', machineId = ''m-1'',
      platform = ''linux'', extensionId = ''eamodio.gitlens'', sessionId = ''s-1'',
      language = ''en'', vscodeEdition = ''stable'', vscodeVersion = ''1.80.0'',
      vscodeHost = ''desktop''\<rparr>"

lemmas adapter_ops [adapter_defs] =
  constructor_def dispose_def sendEvent_def startEvent_def setGlobalAttributes_def
  newExporter_def exporterOptions_def exportProcessor_def exporterUrl_def devEndpoint_def
  prodEndpoint_def

section \<open>The spans of an event\<close>

lemma eventAttributes_simps [simp]:
  "eventAttributes this None = globalAttributes this"
  "eventAttributes this (Some d) = globalAttributes this ++ d"
  by (simp_all add: eventAttributes_def)

lemma openedSpan_simps [simp]:
  "span_name (openedSpan w this n d st) = n"
  "span_scope (openedSpan w this n d st) = scopeOf (tracer this)"
  "span_startTime (openedSpan w this n d st) = nullish st (now w)"
  "span_endTime (openedSpan w this n d st) = None"
  "span_recording (openedSpan w this n d st) \<longleftrightarrow> globalTracerProvider w \<noteq> None"
  "span_processors (openedSpan w this n d st) = providerProcessors w"
  by (simp_all add: openedSpan_def)

lemma openedSpan_attributes:
  "span_attributes (openedSpan w this n d st) =
     (if globalTracerProvider w = None then Map.empty else eventAttributes this d)"
  by (simp add: openedSpan_def)

lemma openedSpan_resource [simp]:
  "globalTracerProvider w = Some p \<Longrightarrow> span_resource (openedSpan w this n d st) = resource p"
  by (simp add: openedSpan_def)

lemma isOpen_openedSpan [simp]:
  "isOpen (openedSpan w this n d st) \<longleftrightarrow> globalTracerProvider w \<noteq> None"
  by (simp add: isOpen_def)

lemma not_isEnded_openedSpan [simp]: "\<not> isEnded (openedSpan w this n d st)"
  by (simp add: isEnded_def)

lemma sentSpan_simps [simp]:
  "span_name (sentSpan w this n d st et) = n"
  "span_scope (sentSpan w this n d st et) = scopeOf (tracer this)"
  "span_startTime (sentSpan w this n d st et) = nullish st (now w)"
  "span_recording (sentSpan w this n d st et) \<longleftrightarrow> globalTracerProvider w \<noteq> None"
  "span_processors (sentSpan w this n d st et) = providerProcessors w"
  "span_attributes (sentSpan w this n d st et) = span_attributes (openedSpan w this n d st)"
  by (simp_all add: sentSpan_def)

lemma sentSpan_endTime:
  "span_endTime (sentSpan w this n d st et) =
     (if globalTracerProvider w = None then None else Some (nullish et (now w)))"
  by (simp add: sentSpan_def)

lemma sentSpan_resource [simp]:
  "globalTracerProvider w = Some p \<Longrightarrow> span_resource (sentSpan w this n d st et) = resource p"
  by (simp add: sentSpan_def)

lemma isEnded_sentSpan [simp]:
  "isEnded (sentSpan w this n d st et) \<longleftrightarrow> globalTracerProvider w \<noteq> None"
  by (simp add: isEnded_def sentSpan_endTime)

lemma not_isOpen_sentSpan [simp]: "\<not> isOpen (sentSpan w this n d st et)"
  by (simp add: isOpen_def sentSpan_endTime)

section \<open>startEvent and sendEvent\<close>

lemma startEvent_world:
  "startEvent this name data startTime w =
     (length (spans w), w\<lparr>spans := spans w @ [openedSpan w this name data startTime]\<rparr>)"
proof (cases "tracer this")
  case (ProxyTracer scope)
  then show ?thesis
    by (cases data)
       (simp_all add: startEvent_def setAttributes_last openedSpan_def isOpen_def)
qed

lemma sendEvent_as_startEvent:
  "sendEvent this name data startTime endTime w =
     endSpan (fst (startEvent this name data startTime w)) endTime
       (snd (startEvent this name data startTime w))"
  by (simp add: sendEvent_def startEvent_def Let_def split: prod.splits)

lemma sendEvent_world:
  "sendEvent this name data startTime endTime w =
     onEndAll (providerProcessors w) (sentSpan w this name data startTime endTime)
       (w\<lparr>spans := spans w @ [sentSpan w this name data startTime endTime]\<rparr>)"
  by (simp add: sendEvent_as_startEvent startEvent_world endSpan_last sentSpan_def)

lemma startEvent_simps [simp]:
  "fst (startEvent this n d st w) = length (spans w)"
  "spans (snd (startEvent this n d st w)) = spans w @ [openedSpan w this n d st]"
  "now (snd (startEvent this n d st w)) = now w"
  "diag (snd (startEvent this n d st w)) = diag w"
  "globalTracerProvider (snd (startEvent this n d st w)) = globalTracerProvider w"
  "pending (snd (startEvent this n d st w)) = pending w"
  "exported (snd (startEvent this n d st w)) = exported w"
  by (simp_all add: startEvent_world)

lemma sendEvent_simps [simp]:
  "spans (sendEvent this n d st et w) = spans w @ [sentSpan w this n d st et]"
  "exported (sendEvent this n d st et w) =
     exported w @ immediate (providerProcessors w) (sentSpan w this n d st et)"
  "pending (sendEvent this n d st et w) =
     pending w @ deferred (providerProcessors w) (sentSpan w this n d st et)"
  "now (sendEvent this n d st et w) = now w"
  "diag (sendEvent this n d st et w) = diag w"
  "globalTracerProvider (sendEvent this n d st et w) = globalTracerProvider w"
  by (simp_all add: sendEvent_world)

lemma eventAttributes_lookup:
  "eventAttributes this data k =
     (case Option.bind data (\<lambda>d. d k) of Some v \<Rightarrow> Some v | None \<Rightarrow> globalAttributes this k)"
  by (cases data) (simp_all add: map_add_def split: option.splits)

section \<open>setGlobalAttributes and dispose\<close>

lemma setGlobalAttributes_simps [simp]:
  "globalAttributes (setGlobalAttributes this m) = DAList.lookup m"
  "tracer (setGlobalAttributes this m) = tracer this"
  by (simp_all add: setGlobalAttributes_def fromEntriesMap_lookup)

lemma setGlobalAttributes_twice [simp]:
  "setGlobalAttributes (setGlobalAttributes this a) b = setGlobalAttributes this b"
  by (simp add: setGlobalAttributes_def)

lemma dispose_simps [simp]:
  "globalTracerProvider (dispose this w) = None"
  "now (dispose this w) = now w"
  "diag (dispose this w) = diag w"
  "spans (dispose this w) = spans w"
  "pending (dispose this w) = pending w"
  "exported (dispose this w) = exported w"
  by (simp_all add: dispose_def)

lemma dispose_idem [simp]: "dispose that (dispose this w) = dispose this w"
  by (simp add: dispose_def)

section \<open>The constructor\<close>

lemma constructor_world:
  "constructor context agent debugging w =
     (\<lparr>globalAttributes = Map.empty, tracer = ProxyTracer (extensionId context)\<rparr>,
      w\<lparr>diag := (if truthy debugging then Some (DiagConsoleLogger, VERBOSE) else diag w),
        globalTracerProvider := Some (builtProvider context agent debugging)\<rparr>)"
  by (simp add: constructor_def builtProvider_def pipelineOf_def exportProcessor_def
      addSpanProcessor_def register_def setLogger_def Let_def)

lemma constructor_simps [simp]:
  "globalAttributes (fst (constructor c a dbg w)) = Map.empty"
  "tracer (fst (constructor c a dbg w)) = ProxyTracer (extensionId c)"
  "globalTracerProvider (snd (constructor c a dbg w)) = Some (builtProvider c a dbg)"
  "diag (snd (constructor c a dbg w)) =
     (if truthy dbg then Some (DiagConsoleLogger, VERBOSE) else diag w)"
  "now (snd (constructor c a dbg w)) = now w"
  "spans (snd (constructor c a dbg w)) = spans w"
  "pending (snd (constructor c a dbg w)) = pending w"
  "exported (snd (constructor c a dbg w)) = exported w"
  by (simp_all add: constructor_world)

lemma builtProvider_simps [simp]:
  "resource (builtProvider c a dbg) = resourceOf c"
  "processors (builtProvider c a dbg) = pipelineOf a dbg"
  by (simp_all add: builtProvider_def)

lemma pipelineOf_simps [simp]:
  "truthy dbg \<Longrightarrow> pipelineOf a dbg =
     [SimpleSpanProcessor ConsoleSpanExporter, SimpleSpanProcessor (newExporter a dbg)]"
  "\<not> truthy dbg \<Longrightarrow> pipelineOf a dbg = [BatchSpanProcessor (newExporter a dbg)]"
  by (simp_all add: pipelineOf_def)

lemma pipelineOf_split:
  "immediate (pipelineOf a dbg) sp =
     (if truthy dbg then [(ConsoleSpanExporter, sp), (newExporter a dbg, sp)] else [])"
  "deferred (pipelineOf a dbg) sp = (if truthy dbg then [] else [(newExporter a dbg, sp)])"
  by (simp_all add: pipelineOf_def)

lemma exporterOptions_simps [simp]:
  "url (exporterOptions a dbg) = exporterUrl dbg"
  "compression (exporterOptions a dbg) = ''gzip''"
  "httpAgentOptions (exporterOptions a dbg) = map_option options a"
  by (simp_all add: exporterOptions_def)

lemma newExporter_not_console [simp]: "newExporter a dbg \<noteq> ConsoleSpanExporter"
  by (simp add: newExporter_def)

lemma endpoints_differ [simp]: "devEndpoint \<noteq> prodEndpoint" "prodEndpoint \<noteq> devEndpoint"
  by (simp_all add: devEndpoint_def prodEndpoint_def)

lemma endpointOf_newExporter [simp]:
  "endpointOf (newExporter a dbg) = Some (if truthy dbg then devEndpoint else prodEndpoint)"
  by (simp add: newExporter_def exporterUrl_def)

section \<open>The diagnostic logger\<close>

text \<open>
  The methods neither read the diagnostic logger nor write it, so they commute with a
  change of it. The constructor writes it when debugging and leaves it alone otherwise;
  it never reads it, so the adapter it returns and the rest of the world do not depend
  on the logger that was installed before.
\<close>

lemma startEvent_diag [diag_free]:
  "startEvent this n data st (w\<lparr>diag := d\<rparr>) =
     (fst (startEvent this n data st w), (snd (startEvent this n data st w))\<lparr>diag := d\<rparr>)"
  by (simp add: startEvent_world openedSpan_def)

lemma sendEvent_diag [diag_free]:
  "sendEvent this n data st et (w\<lparr>diag := d\<rparr>) = (sendEvent this n data st et w)\<lparr>diag := d\<rparr>"
  by (simp add: sendEvent_world sentSpan_def openedSpan_def providerProcessors_def onEndAll_diag)

lemma dispose_diag [diag_free]: "dispose this (w\<lparr>diag := d\<rparr>) = (dispose this w)\<lparr>diag := d\<rparr>"
  by (simp add: dispose_def disable_def)

lemma constructor_diag [diag_free]:
  "constructor c a dbg (w\<lparr>diag := d\<rparr>) =
     (fst (constructor c a dbg w),
      (snd (constructor c a dbg w))
        \<lparr>diag := if truthy dbg then Some (DiagConsoleLogger, VERBOSE) else d\<rparr>)"
  by (simp add: constructor_world)

section \<open>Conservation\<close>

lemma conserved_startEvent [simp]:
  "conserved (snd (startEvent this n d st w)) \<longleftrightarrow> conserved w"
  by (simp add: startEvent_world conserved_def owed_snoc isEnded_def)

lemma gains_startEvent [simp]: "gains w (snd (startEvent this n d st w))"
  by (simp add: gains_same startEvent_world owed_snoc isEnded_def)

lemma gains_sendEvent [simp]: "gains w (sendEvent this n d st et w)"
  unfolding sendEvent_as_startEvent by (rule gains_trans [OF gains_startEvent gains_endSpan])

lemma gains_dispose [simp]: "gains w (dispose this w)"
  by (simp add: gains_same dispose_def)

lemma conserved_sendEvent: "conserved w \<Longrightarrow> conserved (sendEvent this n d st et w)"
  by (rule gains_conserved [OF gains_sendEvent])

lemma conserved_dispose [simp]: "conserved (dispose this w) \<longleftrightarrow> conserved w"
  by (simp add: dispose_def)

lemma conserved_constructor [simp]:
  "conserved (snd (constructor c a dbg w)) \<longleftrightarrow> conserved w"
  by (simp add: conserved_def owed_def)

section \<open>Properties of the methods\<close>

text \<open>
  C1. \<^verbatim>\<open>sendEvent\<close> adds exactly one span to the store, the span \<open>sentSpan\<close>: it has
  the name given, the start and end times given or else the current time, and the global
  attributes overlaid by the event's own. That same span is handed to the processors of
  the registered provider: the simple ones export it at once, the batching ones hold it
  back. Without a registered provider the span records nothing, and nothing is exported
  or held back.
\<close>

theorem sendEvent_spec:
  "spans (sendEvent this name data startTime endTime w) =
     spans w @ [sentSpan w this name data startTime endTime]
   \<and> exported (sendEvent this name data startTime endTime w) =
     exported w @ immediate (providerProcessors w) (sentSpan w this name data startTime endTime)
   \<and> pending (sendEvent this name data startTime endTime w) =
     pending w @ deferred (providerProcessors w) (sentSpan w this name data startTime endTime)"
proof (cases "tracer this")
  case (ProxyTracer scope)
  then have "sendEvent this name data startTime endTime w =
     onEndAll (providerProcessors w) (sentSpan w this name data startTime endTime)
       (w\<lparr>spans := spans w @ [sentSpan w this name data startTime endTime]\<rparr>)"
    by (cases data)
       (simp_all add: sendEvent_def setAttributes_last endSpan_last sentSpan_def openedSpan_def
          isOpen_def)
  then show ?thesis by simp
qed

text \<open>
  C2. \<^verbatim>\<open>startEvent\<close> returns a fresh handle, the next free index of the span store, and
  stores under it the open span \<open>openedSpan\<close>: the name given, the start time given or
  else the current time, the global attributes overlaid by the event's own, no end time.
  It changes nothing else: nothing enters the pipeline.
\<close>

theorem startEvent_spec:
  "startEvent this name data startTime w =
     (length (spans w), w\<lparr>spans := spans w @ [openedSpan w this name data startTime]\<rparr>)"
proof (cases "tracer this")
  case (ProxyTracer scope)
  then show ?thesis
    by (cases data)
       (simp_all add: startEvent_def setAttributes_last openedSpan_def isOpen_def)
qed

text \<open>
  C3. With a provider registered, the span \<^verbatim>\<open>sendEvent\<close> stores has, under every key,
  the value of the event's own data where the data has the key, and the global
  attribute otherwise: on a conflict the data wins.
\<close>

theorem sendEvent_data_wins:
  assumes "globalTracerProvider w \<noteq> None"
  shows "span_attributes (last (spans (sendEvent this name data startTime endTime w))) k =
     (case Option.bind data (\<lambda>d. d k) of
        Some v \<Rightarrow> Some v
      | None \<Rightarrow> globalAttributes this k)"
proof (cases "tracer this")
  case (ProxyTracer scope)
  with assms show ?thesis
    by (cases data)
       (auto simp: sendEvent_def setAttributes_last endSpan_last isOpen_def map_add_def
          split: option.splits)
qed

theorem sendEvent_data_wins_witness:
  "span_attributes (last (spans (sendEvent
      \<lparr>globalAttributes = [''user'' \<mapsto> StringValue ''global'', ''plan'' \<mapsto> StringValue ''pro''],
       tracer = ProxyTracer ''gitlens''\<rparr>
      ''command'' (Some [''user'' \<mapsto> StringValue ''local'']) None None
      (register \<lparr>resource = [], processors = []\<rparr> (initial_world 0))))) ''user''
   = Some (StringValue ''local'')"
  using sendEvent_data_wins [of "register \<lparr>resource = [], processors = []\<rparr> (initial_world 0)"
      "\<lparr>globalAttributes = [''user'' \<mapsto> StringValue ''global'', ''plan'' \<mapsto> StringValue ''pro''],
        tracer = ProxyTracer ''gitlens''\<rparr>"
      "''command''" "Some [''user'' \<mapsto> StringValue ''local'']" None None "''user''"]
  by simp

text \<open>
  C4. \<^verbatim>\<open>setGlobalAttributes\<close> replaces the stored global attributes as a whole: after
  two calls only the second map counts, a lookup in the stored attributes is a lookup in
  that map, and an event sent without data of its own carries exactly its entries. The
  tracer is not touched.
\<close>

theorem setGlobalAttributes_replaces:
  "globalAttributes (setGlobalAttributes (setGlobalAttributes this a) b) = DAList.lookup b
   \<and> eventAttributes (setGlobalAttributes (setGlobalAttributes this a) b) None = DAList.lookup b
   \<and> tracer (setGlobalAttributes this b) = tracer this"
  by (simp add: setGlobalAttributes_def eventAttributes_def fromEntriesMap_lookup)

text \<open>
  C5. The constructor registers one provider process-wide, whose resource is built from
  the context and whose processors are: when debugging, a simple processor writing to
  the console followed by a simple processor for the network exporter of the development
  endpoint; otherwise one batching processor for the network exporter of the production
  endpoint. Debugging also installs the verbose console logger. The new adapter has no
  global attributes and the tracer named after the extension. Spans, pending and
  exported entries and the clock are as before.
\<close>

theorem constructor_spec:
  "constructor context agent debugging w =
     (\<lparr>globalAttributes = Map.empty, tracer = ProxyTracer (extensionId context)\<rparr>,
      w\<lparr>diag := (if truthy debugging then Some (DiagConsoleLogger, VERBOSE) else diag w),
        globalTracerProvider :=
          Some \<lparr>resource = resourceOf context,
                processors =
                  (if truthy debugging
                   then [SimpleSpanProcessor ConsoleSpanExporter,
                         SimpleSpanProcessor (OTLPTraceExporter
                           \<lparr>url = ''https://otel-dev.gitkraken.com:4318/v1/traces'',
                            compression = ''gzip'',
                            httpAgentOptions = map_option options agent\<rparr>)]
                   else [BatchSpanProcessor (OTLPTraceExporter
                           \<lparr>url = ''https://otel.gitkraken.com:4318/v1/traces'',
                            compression = ''gzip'',
                            httpAgentOptions = map_option options agent\<rparr>)])\<rparr>\<rparr>)"
  by (simp add: constructor_def newExporter_def exporterOptions_def exporterUrl_def devEndpoint_def
      prodEndpoint_def exportProcessor_def
      addSpanProcessor_def register_def setLogger_def Let_def)

text \<open>
  C6. An adapter constructed with debugging on exports every event at once: the span
  \<^verbatim>\<open>sendEvent\<close> produces is handed to the console exporter and then to the network
  exporter of the development endpoint within the call, nothing is held back, and the
  span carries the resource built from the context.
\<close>

theorem debugging_exports_at_once:
  "let (this, w) = constructor context agent (Some True) w0;
       s = sentSpan w this name data startTime endTime;
       w' = sendEvent this name data startTime endTime w
   in exported w' = exported w0 @ [(ConsoleSpanExporter, s), (newExporter agent (Some True), s)]
    \<and> pending w' = pending w0
    \<and> isEnded s \<and> span_resource s = resourceOf context"
  by (simp add: constructor_def exportProcessor_def addSpanProcessor_def register_def
      setLogger_def providerProcessors_def Let_def)

text \<open>
  C7. An adapter constructed with debugging off or absent exports nothing within
  \<^verbatim>\<open>sendEvent\<close>: the span is held back for the network exporter of the production
  endpoint, after whatever was held back before. The next deferred export hands over
  everything held back, in order, with that span last, and leaves nothing behind.
\<close>

theorem production_defers_then_delivers:
  assumes "\<not> truthy debugging"
  shows "let (this, w) = constructor context agent debugging w0;
             s = sentSpan w this name data startTime endTime;
             w' = sendEvent this name data startTime endTime w
         in exported w' = exported w0
          \<and> pending w' = pending w0 @ [(newExporter agent debugging, s)]
          \<and> exported (batchExport w') = exported w0 @ pending w0 @ [(newExporter agent debugging, s)]
          \<and> pending (batchExport w') = []"
  using assms
  by (simp add: constructor_def exportProcessor_def addSpanProcessor_def register_def
      setLogger_def providerProcessors_def Let_def)

theorem production_defers_then_delivers_witness:
  "let (this, w) = constructor exampleContext None None (initial_world 7);
       s = sentSpan w this ''opened'' None None None;
       w' = sendEvent this ''opened'' None None None w
   in exported w' = [] \<and> pending w' = [(newExporter None None, s)]
    \<and> exported (batchExport w') = [(newExporter None None, s)]
    \<and> span_startTime s = 7 \<and> span_endTime s = Some 7"
  using production_defers_then_delivers [of None exampleContext None "initial_world 7"
      "''opened''" None None None]
  by (simp add: constructor_world Let_def sentSpan_endTime)

text \<open>
  C8. After \<^verbatim>\<open>dispose\<close> a \<^verbatim>\<open>sendEvent\<close> reaches no pipeline: it exports nothing and
  holds nothing back, and the one span it adds to the store does not record and stays
  without attributes and end time. \<^verbatim>\<open>dispose\<close> itself exports nothing either: what a
  batching processor held back stays held back. (Every call returns in this model, so
  that the call does not raise is not part of what is shown; that the span records
  nothing rests on the tracer looking the provider up at each span.)
\<close>

theorem sendEvent_after_dispose:
  "let w' = sendEvent this name data startTime endTime (dispose this w)
   in exported w' = exported w \<and> pending w' = pending w
    \<and> length (spans w') = Suc (length (spans w))
    \<and> \<not> span_recording (last (spans w'))
    \<and> span_attributes (last (spans w')) = Map.empty
    \<and> span_endTime (last (spans w')) = None"
  by (simp add: dispose_def Let_def sentSpan_endTime openedSpan_attributes)

text \<open>
  C9. \<^verbatim>\<open>sendEvent\<close> is \<^verbatim>\<open>startEvent\<close> followed by ending the span it returned: the
  two methods build their span by the same steps, so an event sent in one call and an
  event started and then ended by the caller at the same instant are the same.
\<close>

theorem sendEvent_startEvent:
  "sendEvent this name data startTime endTime w =
     (let (span, w') = startEvent this name data startTime w in endSpan span endTime w')"
  by (simp add: sendEvent_def startEvent_def Let_def split: prod.splits)

text \<open>
  C18. Times. With a provider registered, an event sent with no times starts and ends at
  the time of the call, so its duration is zero. With a start time only, it ends at the
  time of the call, so its duration is the time since that start and is negative when
  the start given lies after the call. With both times the duration is their
  difference, whatever the clock says; nothing orders the two.
\<close>

theorem sendEvent_duration:
  assumes "globalTracerProvider w = Some p"
  shows "duration (last (spans (sendEvent this name data None None w))) = Some 0
       \<and> duration (last (spans (sendEvent this name data (Some t) None w))) = Some (now w - t)
       \<and> duration (last (spans (sendEvent this name data (Some t) (Some e) w))) = Some (e - t)"
  using assms by (simp add: duration_def sentSpan_endTime)

theorem sendEvent_duration_witness:
  "let (this, w) = constructor exampleContext None None (initial_world 5)
   in duration (last (spans (sendEvent this ''x'' None None None w))) = Some 0
    \<and> duration (last (spans (sendEvent this ''x'' None (Some 9) None w))) = Some (- 4)
    \<and> duration (last (spans (sendEvent this ''x'' None (Some 9) (Some 2) w))) = Some (- 7)"
  using sendEvent_duration [of "snd (constructor exampleContext None None (initial_world 5))"
      "builtProvider exampleContext None None"
      "fst (constructor exampleContext None None (initial_world 5))" "''x''" None 9 2]
  by (simp add: Let_def split_beta)

end
