(* ===== verification/System.thy ===== *)
theory System
  imports Provider
begin

text \<open>
  The adapter in use: one instance, the process around it, and everything that can
  happen to them after construction. A \<open>Call\<close> is a call of one of the four methods, a
  call the holder of a span handle makes on that span, or a step of the environment (the
  deferred export of the batching processor, in full or one batch at a time, and the
  passing of time). \<open>step\<close> performs one
  of them, \<open>run\<close> a sequence, and \<open>reachable\<close> are the states a freshly constructed adapter
  can get into. The theorems are invariants of the reachable states; the lemmas before
  them include that no call depends on the diagnostic logger installed.
\<close>

section \<open>Calls and steps\<close>

datatype Call =
    SendEvent string "Attributes option" "TimeInput option" "TimeInput option"
  | StartEvent string "Attributes option" "TimeInput option"
  | SetGlobalAttributes AttributeMap
  | Dispose
  | SpanSetAttributes SpanHandle Attributes
  | SpanEnd SpanHandle "TimeInput option"
  | BatchExport
  | ExportBatch nat
  | Tick nat

record system =
  adapter :: OpenTelemetryProvider
  process :: world

fun step :: "Call \<Rightarrow> system \<Rightarrow> system" where
  "step (SendEvent name data startTime endTime) s =
     s\<lparr>process := sendEvent (adapter s) name data startTime endTime (process s)\<rparr>"
| "step (StartEvent name data startTime) s =
     s\<lparr>process := snd (startEvent (adapter s) name data startTime (process s))\<rparr>"
| "step (SetGlobalAttributes attributes) s =
     s\<lparr>adapter := setGlobalAttributes (adapter s) attributes\<rparr>"
| "step Dispose s = s\<lparr>process := dispose (adapter s) (process s)\<rparr>"
| "step (SpanSetAttributes h attrs) s = s\<lparr>process := setAttributes h attrs (process s)\<rparr>"
| "step (SpanEnd h endTime) s = s\<lparr>process := endSpan h endTime (process s)\<rparr>"
| "step BatchExport s = s\<lparr>process := batchExport (process s)\<rparr>"
| "step (ExportBatch n) s = s\<lparr>process := exportBatch n (process s)\<rparr>"
| "step (Tick d) s = s\<lparr>process := (process s)\<lparr>now := now (process s) + int d\<rparr>\<rparr>"

definition run :: "Call list \<Rightarrow> system \<Rightarrow> system" where
  "run cs s = fold step cs s"

text \<open>The state right after \<^verbatim>\<open>new OpenTelemetryProvider(context, agent, debugging)\<close> at time \<open>t\<close>.\<close>

definition boot ::
  "TelemetryContext \<Rightarrow> HttpsProxyAgent option \<Rightarrow> bool option \<Rightarrow> TimeInput \<Rightarrow> system" where
  "boot c a dbg t =
     (let (this, w) = constructor c a dbg (initial_world t) in \<lparr>adapter = this, process = w\<rparr>)"

inductive reachable ::
  "TelemetryContext \<Rightarrow> HttpsProxyAgent option \<Rightarrow> bool option \<Rightarrow> system \<Rightarrow> bool"
  for c a dbg where
    reachable_boot: "reachable c a dbg (boot c a dbg t)"
  | reachable_step: "reachable c a dbg s \<Longrightarrow> reachable c a dbg (step call s)"

section \<open>Invariants\<close>

text \<open>
  \<open>spanConfigured c a dbg sp\<close>: if the span records, it was started under the provider the
  constructor built, so it carries that provider's processors and resource and the
  tracer's name. \<open>configured c a dbg s\<close>: the adapter still holds the tracer named after the
  extension, the provider registered process-wide, if any, is the one the constructor
  built, and every span of the store is configured.
\<close>

definition spanConfigured ::
  "TelemetryContext \<Rightarrow> HttpsProxyAgent option \<Rightarrow> bool option \<Rightarrow> Span \<Rightarrow> bool" where
  "spanConfigured c a dbg sp \<longleftrightarrow>
     (span_recording sp \<longrightarrow>
        span_processors sp = pipelineOf a dbg \<and> span_resource sp = resourceOf c
        \<and> span_scope sp = extensionId c)"

definition configured ::
  "TelemetryContext \<Rightarrow> HttpsProxyAgent option \<Rightarrow> bool option \<Rightarrow> system \<Rightarrow> bool" where
  "configured c a dbg s \<longleftrightarrow>
     tracer (adapter s) = ProxyTracer (extensionId c)
     \<and> globalTracerProvider (process s) \<in> {None, Some (builtProvider c a dbg)}
     \<and> list_all (spanConfigured c a dbg) (spans (process s))"

text \<open>
  Two short sessions for the worked instances: in both an event is sent, a second one is
  started and never ended, time passes and the deferred export runs. The first adapter
  is constructed without the debugging flag, the second with it.
\<close>

definition exampleCalls :: "Call list" where
  "exampleCalls =
     [SendEvent ''activate'' (Some [''mode'' \<mapsto> StringValue ''zen'']) None None,
      StartEvent ''command'' None None,
      Tick 5,
      BatchExport]"

definition exampleRun :: system where
  "exampleRun = run exampleCalls (boot exampleContext None None 100)"

definition exampleDebugRun :: system where
  "exampleDebugRun = run exampleCalls (boot exampleContext None (Some True) 100)"

section \<open>Steps and runs\<close>

lemma step_adapter [simp]:
  "adapter (step (SendEvent n d st et) s) = adapter s"
  "adapter (step (StartEvent n d st) s) = adapter s"
  "adapter (step Dispose s) = adapter s"
  "adapter (step (SpanSetAttributes h attrs) s) = adapter s"
  "adapter (step (SpanEnd h t) s) = adapter s"
  "adapter (step BatchExport s) = adapter s"
  "adapter (step (ExportBatch k) s) = adapter s"
  "adapter (step (Tick k) s) = adapter s"
  "process (step (SetGlobalAttributes m) s) = process s"
  by simp_all

lemma run_simps [simp]:
  "run [] s = s"
  "run (call # cs) s = run cs (step call s)"
  "run (cs @ ds) s = run ds (run cs s)"
  by (simp_all add: run_def)

lemma boot_simps [simp]:
  "adapter (boot c a dbg t) =
     \<lparr>globalAttributes = Map.empty, tracer = ProxyTracer (extensionId c)\<rparr>"
  "globalTracerProvider (process (boot c a dbg t)) = Some (builtProvider c a dbg)"
  "spans (process (boot c a dbg t)) = []"
  "pending (process (boot c a dbg t)) = []"
  "exported (process (boot c a dbg t)) = []"
  "now (process (boot c a dbg t)) = t"
  by (simp_all add: boot_def constructor_world)

lemma reachable_run: "reachable c a dbg s \<Longrightarrow> reachable c a dbg (run cs s)"
  by (induction cs arbitrary: s) (auto intro: reachable_step)

lemma reachable_iff_run: "reachable c a dbg s \<longleftrightarrow> (\<exists>t cs. s = run cs (boot c a dbg t))"
proof
  assume "reachable c a dbg s"
  then show "\<exists>t cs. s = run cs (boot c a dbg t)"
  proof (induction rule: reachable.induct)
    case (reachable_boot t)
    have "boot c a dbg t = run [] (boot c a dbg t)" by simp
    then show ?case by blast
  next
    case (reachable_step s call)
    then obtain t cs where "s = run cs (boot c a dbg t)" by blast
    then have "step call s = run (cs @ [call]) (boot c a dbg t)" by simp
    then show ?case by blast
  qed
next
  assume "\<exists>t cs. s = run cs (boot c a dbg t)"
  then show "reachable c a dbg s"
    by (auto intro: reachable_run reachable_boot)
qed

lemma reachable_exampleRun: "reachable exampleContext None None exampleRun"
  unfolding exampleRun_def by (intro reachable_run reachable_boot)

lemma reachable_exampleDebugRun: "reachable exampleContext None (Some True) exampleDebugRun"
  unfolding exampleDebugRun_def by (intro reachable_run reachable_boot)

lemma length_spans_step: "length (spans (process s)) \<le> length (spans (process (step call s)))"
  by (cases call) simp_all

lemma step_lifecycle:
  assumes "h < length (spans (process s))"
  shows "lifecycle\<^sup>=\<^sup>= (spans (process s) ! h) (spans (process (step call s)) ! h)"
  using assms setAttributes_lifecycle [of h "process s"] endSpan_lifecycle [of h "process s"]
  by (cases call) (auto simp: nth_append)

lemma run_lifecycle:
  assumes "h < length (spans (process s))"
  shows "lifecycle\<^sup>*\<^sup>* (spans (process s) ! h) (spans (process (run cs s)) ! h)"
  using assms
proof (induction cs arbitrary: s)
  case Nil
  show ?case by simp
next
  case (Cons call cs)
  from Cons.prems length_spans_step [of s call]
  have "h < length (spans (process (step call s)))" by simp
  from Cons.IH [OF this] step_lifecycle [OF Cons.prems, of call] show ?case
    by (auto intro: converse_rtranclp_into_rtranclp)
qed

section \<open>The diagnostic logger\<close>

text \<open>
  No call reads the diagnostic logger: a step from a state with another logger
  installed gives the same state with that logger installed.
\<close>

lemma step_diag [diag_free]:
  "step call \<lparr>adapter = x, process = w\<lparr>diag := d\<rparr>\<rparr> =
     \<lparr>adapter = adapter (step call \<lparr>adapter = x, process = w\<rparr>),
      process = (process (step call \<lparr>adapter = x, process = w\<rparr>))\<lparr>diag := d\<rparr>\<rparr>"
  by (cases call) (simp_all add: diag_free)

lemma run_diag:
  "run cs \<lparr>adapter = x, process = w\<lparr>diag := d\<rparr>\<rparr> =
     \<lparr>adapter = adapter (run cs \<lparr>adapter = x, process = w\<rparr>),
      process = (process (run cs \<lparr>adapter = x, process = w\<rparr>))\<lparr>diag := d\<rparr>\<rparr>"
proof (induction cs arbitrary: x w)
  case Nil
  show ?case by simp
next
  case (Cons call cs)
  let ?s = "step call \<lparr>adapter = x, process = w\<rparr>"
  have "\<lparr>adapter = adapter ?s, process = process ?s\<rparr> = ?s" by simp
  with Cons [of "adapter ?s" "process ?s"] show ?case by (simp add: step_diag)
qed

section \<open>Every step keeps the invariants\<close>

lemma gains_step: "gains (process s) (process (step call s))"
  by (cases call) (simp_all add: gains_same owed_def)

lemma conserved_step: "conserved (process s) \<Longrightarrow> conserved (process (step call s))"
  by (rule gains_conserved [OF gains_step])

lemma conserved_boot [simp]: "conserved (process (boot c a dbg t))"
  by (simp add: boot_def constructor_world conserved_def owed_def)

lemma reachable_conserved: "reachable c a dbg s \<Longrightarrow> conserved (process s)"
  by (induction rule: reachable.induct) (simp_all add: conserved_step)

lemma spanConfigured_update [simp]:
  "spanConfigured c a dbg (sp\<lparr>span_attributes := m\<rparr>) = spanConfigured c a dbg sp"
  "spanConfigured c a dbg (sp\<lparr>span_endTime := t\<rparr>) = spanConfigured c a dbg sp"
  by (simp_all add: spanConfigured_def)

lemma spanConfigured_new:
  assumes "globalTracerProvider w \<in> {None, Some (builtProvider c a dbg)}"
    and "tracer this = ProxyTracer (extensionId c)"
  shows "spanConfigured c a dbg (openedSpan w this n d st)"
    and "spanConfigured c a dbg (sentSpan w this n d st et)"
  using assms by (auto simp: spanConfigured_def)

lemma configured_boot: "configured c a dbg (boot c a dbg t)"
  by (simp add: configured_def)

lemma configured_step: "configured c a dbg s \<Longrightarrow> configured c a dbg (step call s)"
  unfolding configured_def
  by (cases call)
     (auto simp: spanConfigured_new list_all_spans_setAttributes list_all_spans_endSpan)

lemma reachable_configured: "reachable c a dbg s \<Longrightarrow> configured c a dbg s"
  by (induction rule: reachable.induct) (simp_all add: configured_boot configured_step)

lemma configured_providerProcessors:
  "configured c a dbg s \<Longrightarrow>
   providerProcessors (process s) = [] \<or> providerProcessors (process s) = pipelineOf a dbg"
  by (auto simp: configured_def)

lemma configured_open_span:
  "configured c a dbg s \<Longrightarrow> h < length (spans (process s)) \<Longrightarrow>
   isOpen (spans (process s) ! h) \<Longrightarrow>
   span_processors (spans (process s) ! h) = pipelineOf a dbg"
  by (auto simp: configured_def list_all_length spanConfigured_def isOpen_def)

lemma owed_configured:
  assumes "list_all (spanConfigured c a dbg) (spans w)"
  shows "owed w =
     (\<Sum>sp \<in># filter_mset isEnded (mset (spans w)).
        mset (map (\<lambda>p. (exporterOf p, sp)) (pipelineOf a dbg)))"
proof -
  have "\<And>sp. sp \<in># filter_mset isEnded (mset (spans w)) \<Longrightarrow>
      mset (deliveries sp) = mset (map (\<lambda>p. (exporterOf p, sp)) (pipelineOf a dbg))"
    using assms by (auto simp: list_all_iff spanConfigured_def isEnded_def deliveries_def)
  then show ?thesis
    unfolding owed_def by (intro arg_cong [where f = sum_mset] image_mset_cong)
qed

text \<open>
  A debugging adapter attaches simple processors only, so no step holds anything back.
\<close>

lemma pending_debug_step:
  assumes "configured c a dbg s" and "truthy dbg" and "pending (process s) = []"
  shows "pending (process (step call s)) = []"
proof (cases call)
  case (SendEvent n d st et)
  with configured_providerProcessors [OF assms(1)] assms(2,3) show ?thesis
    by (auto simp: pipelineOf_split)
next
  case (SpanEnd h t)
  show ?thesis
  proof (cases "h < length (spans (process s)) \<and> isOpen (spans (process s) ! h)")
    case True
    with SpanEnd configured_open_span [OF assms(1), of h] assms(2,3) show ?thesis
      by (simp add: endSpan_open pipelineOf_split)
  next
    case False
    with SpanEnd assms(3) show ?thesis by auto
  qed
qed (use assms(3) in simp_all)

lemma reachable_pending_debug:
  assumes "truthy dbg" and "reachable c a dbg s"
  shows "pending (process s) = []"
  using assms(2)
proof (induction rule: reachable.induct)
  case (reachable_boot t)
  show ?case by simp
next
  case (reachable_step s call)
  from reachable_step.hyps have "configured c a dbg s" by (rule reachable_configured)
  from pending_debug_step [OF this assms(1) reachable_step.IH] show ?case .
qed

lemma reachable_pipeline:
  assumes "reachable c a dbg s"
  shows "mset (exported (process s)) + mset (pending (process s)) =
     (\<Sum>sp \<in># filter_mset isEnded (mset (spans (process s))).
        mset (map (\<lambda>p. (exporterOf p, sp)) (pipelineOf a dbg)))"
proof -
  from assms have "conserved (process s)" by (rule reachable_conserved)
  moreover from assms have "list_all (spanConfigured c a dbg) (spans (process s))"
    by (auto dest: reachable_configured simp: configured_def)
  ultimately show ?thesis
    by (simp add: conserved_def owed_configured)
qed

section \<open>Spans that have ended, spans that have not\<close>

lemma step_ended_immutable:
  assumes "h < length (spans (process s))" and "isEnded (spans (process s) ! h)"
  shows "spans (process (step call s)) ! h = spans (process s) ! h"
  using assms
  by (cases call) (simp_all add: ended_immutable_setAttributes ended_immutable_endSpan)

lemma run_ended_immutable:
  assumes "h < length (spans (process s))" and "isEnded (spans (process s) ! h)"
  shows "spans (process (run cs s)) ! h = spans (process s) ! h"
  using assms
proof (induction cs arbitrary: s)
  case Nil
  show ?case by simp
next
  case (Cons call cs)
  from Cons.prems have eq: "spans (process (step call s)) ! h = spans (process s) ! h"
    by (rule step_ended_immutable)
  moreover from Cons.prems(1) length_spans_step [of s call]
  have "h < length (spans (process (step call s)))" by simp
  ultimately have "spans (process (run cs (step call s))) ! h = spans (process (step call s)) ! h"
    using Cons.prems(2) by (intro Cons.IH) simp_all
  with eq show ?case by simp
qed

lemma step_stays_unended:
  assumes "h < length (spans (process s))" and "\<not> isEnded (spans (process s) ! h)"
    and "\<And>t. call \<noteq> SpanEnd h t"
  shows "\<not> isEnded (spans (process (step call s)) ! h)"
proof (cases call)
  case (SpanEnd h' t)
  with assms(3) have "h \<noteq> h'" by auto
  with SpanEnd assms(2) show ?thesis by simp
qed (use assms in simp_all)

lemma run_stays_unended:
  assumes "h < length (spans (process s))" and "\<not> isEnded (spans (process s) ! h)"
    and "\<And>t. SpanEnd h t \<notin> set cs"
  shows "\<not> isEnded (spans (process (run cs s)) ! h)"
  using assms
proof (induction cs arbitrary: s)
  case Nil
  then show ?case by simp
next
  case (Cons call cs)
  from Cons.prems(3) have ne: "\<And>t. call \<noteq> SpanEnd h t" by auto
  from Cons.prems(1,2) ne have "\<not> isEnded (spans (process (step call s)) ! h)"
    by (rule step_stays_unended)
  moreover from Cons.prems(1) length_spans_step [of s call]
  have "h < length (spans (process (step call s)))" by simp
  moreover from Cons.prems(3) have "\<And>t. SpanEnd h t \<notin> set cs" by auto
  ultimately show ?case by (simp add: Cons.IH)
qed

section \<open>Properties of the adapter in use\<close>

text \<open>
  C10. Conservation. In every state the adapter can reach, the pipeline holds exactly
  the deliveries that the ended spans call for: each span that has ended appears once
  for every processor of the constructed pipeline, either exported or held back for the
  deferred export, and nothing else is in the pipeline. No ended span is lost, none is
  handed over twice, and no span that is still open or does not record is handed over.
\<close>

theorem pipeline_conservation:
  assumes "reachable c a dbg s"
  shows "mset (exported (process s)) + mset (pending (process s)) =
     (\<Sum>sp \<in># filter_mset isEnded (mset (spans (process s))).
        mset (map (\<lambda>p. (exporterOf p, sp)) (pipelineOf a dbg)))"
  using assms by (rule reachable_pipeline)

theorem pipeline_conservation_witness:
  "reachable exampleContext None None exampleRun
   \<and> mset (exported (process exampleRun)) + mset (pending (process exampleRun)) =
     (\<Sum>sp \<in># filter_mset isEnded (mset (spans (process exampleRun))).
        mset (map (\<lambda>p. (exporterOf p, sp)) (pipelineOf None None)))
   \<and> map (span_name \<circ> snd) (exported (process exampleRun)) = [''activate'']
   \<and> map span_name (filter isEnded (spans (process exampleRun))) = [''activate'']"
  using reachable_exampleRun pipeline_conservation [OF reachable_exampleRun]
  by (simp add: exampleRun_def exampleCalls_def sentSpan_endTime isEnded_def)

text \<open>
  C11. A span handed out by \<^verbatim>\<open>startEvent\<close> and never ended never reaches the pipeline:
  whatever is called afterwards, as long as nobody ends that handle, the span has not
  ended and is neither exported nor held back for export.
\<close>

theorem unended_never_exported:
  assumes "reachable c a dbg s"
    and "\<And>t. SpanEnd (length (spans (process s))) t \<notin> set cs"
  shows "let h = length (spans (process s));
             s' = run (StartEvent name data startTime # cs) s
         in \<not> isEnded (spans (process s') ! h)
          \<and> spans (process s') ! h
              \<notin> snd ` (set (exported (process s')) \<union> set (pending (process s')))"
proof -
  let ?h = "length (spans (process s))"
  let ?s1 = "step (StartEvent name data startTime) s"
  let ?s' = "run cs ?s1"
  have "?h < length (spans (process ?s1))" and "\<not> isEnded (spans (process ?s1) ! ?h)"
    by (simp_all add: isEnded_def)
  with assms(2) have unended: "\<not> isEnded (spans (process ?s') ! ?h)"
    by (intro run_stays_unended) simp_all
  from assms(1) have "reachable c a dbg ?s'"
    by (intro reachable_run reachable_step)
  then have "conserved (process ?s')" by (rule reachable_conserved)
  with unended have "spans (process ?s') ! ?h
      \<notin> snd ` (set (exported (process ?s')) \<union> set (pending (process ?s')))"
    by (auto dest: conserved_member(1))
  with unended show ?thesis by (simp add: Let_def)
qed

theorem unended_never_exported_witness:
  "let s = boot exampleContext None (Some True) 0;
       s' = run [StartEvent ''command'' None None, SendEvent ''other'' None None None,
                 SpanSetAttributes 0 [''k'' \<mapsto> BooleanValue True], BatchExport] s
   in \<not> isEnded (spans (process s') ! 0)
    \<and> spans (process s') ! 0 \<notin> snd ` (set (exported (process s')) \<union> set (pending (process s')))
    \<and> span_name (spans (process s') ! 0) = ''command''"
  using unended_never_exported [of exampleContext None "Some True"
      "boot exampleContext None (Some True) 0"
      "[SendEvent ''other'' None None None,
        SpanSetAttributes 0 [''k'' \<mapsto> BooleanValue True], BatchExport]"
      "''command''" None None]
  by (simp add: reachable_boot Let_def nth_append setAttributes_def isOpen_def isEnded_def
      openedSpan_attributes)

text \<open>
  C12. An adapter constructed with debugging on never holds a span back: in every state
  it can reach nothing is pending, and what has been exported is, for each ended span,
  one hand-over to the console exporter and one to the network exporter of the
  development endpoint.
\<close>

theorem debugging_never_defers:
  assumes "reachable c a (Some True) s"
  shows "pending (process s) = []
     \<and> mset (exported (process s)) =
       (\<Sum>sp \<in># filter_mset isEnded (mset (spans (process s))).
          {#(ConsoleSpanExporter, sp), (newExporter a (Some True), sp)#})"
proof -
  from assms have p: "pending (process s) = []"
    by (intro reachable_pending_debug [of "Some True"]) simp_all
  with reachable_pipeline [OF assms] show ?thesis by simp
qed

theorem debugging_never_defers_witness:
  "pending (process exampleDebugRun) = []
   \<and> mset (exported (process exampleDebugRun)) =
       (\<Sum>sp \<in># filter_mset isEnded (mset (spans (process exampleDebugRun))).
          {#(ConsoleSpanExporter, sp), (newExporter None (Some True), sp)#})
   \<and> map fst (exported (process exampleDebugRun)) =
       [ConsoleSpanExporter, newExporter None (Some True)]"
  using debugging_never_defers [OF reachable_exampleDebugRun]
  by (simp add: exampleDebugRun_def exampleCalls_def)

text \<open>
  C13. An adapter constructed with debugging off loses no event to batching: in every
  state it can reach, the next deferred export leaves nothing pending, and what has then
  been exported is exactly one hand-over to the network exporter of the production
  endpoint for each span that has ended, and nothing to the console.
\<close>

theorem production_batch_delivers:
  assumes "\<not> truthy dbg" and "reachable c a dbg s"
  shows "let s' = step BatchExport s
         in pending (process s') = []
          \<and> mset (exported (process s')) =
              image_mset (Pair (newExporter a dbg))
                (filter_mset isEnded (mset (spans (process s))))"
proof -
  from assms(2) have "reachable c a dbg (step BatchExport s)" by (rule reachable_step)
  from reachable_pipeline [OF this] assms(1) show ?thesis
    by (simp add: Let_def)
qed

theorem production_batch_delivers_witness:
  "let s = run [SendEvent ''one'' None None None, SendEvent ''two'' None (Some 3) (Some 9)]
             (boot exampleContext None (Some False) 1);
       s' = step BatchExport s
   in exported (process s) = [] \<and> pending (process s') = []
    \<and> mset (exported (process s')) =
         image_mset (Pair (newExporter None (Some False)))
           (filter_mset isEnded (mset (spans (process s))))
    \<and> map (span_name \<circ> snd) (exported (process s')) = [''one'', ''two'']"
  using production_batch_delivers [of "Some False" exampleContext None
      "run [SendEvent ''one'' None None None, SendEvent ''two'' None (Some 3) (Some 9)]
         (boot exampleContext None (Some False) 1)"]
  by (simp add: reachable_run reachable_boot Let_def)

text \<open>
  C14. A span that has ended is final: no call of the adapter, no call on any span
  handle and no step of the environment changes it afterwards. The attributes and
  times that were exported are the ones the span keeps.
\<close>

theorem ended_span_is_final:
  assumes "h < length (spans (process s))" and "isEnded (spans (process s) ! h)"
  shows "spans (process (run cs s)) ! h = spans (process s) ! h"
  using assms by (rule run_ended_immutable)

theorem ended_span_is_final_witness:
  "let s = step (SendEvent ''done'' None None None) (boot exampleContext None None 4);
       s' = run [SpanSetAttributes 0 [''late'' \<mapsto> NumberValue 1], SpanEnd 0 (Some 99),
                 SetGlobalAttributes (DAList.update ''g'' (BooleanValue False) DAList.empty),
                 SendEvent ''next'' None None None] s
   in isEnded (spans (process s) ! 0)
    \<and> spans (process s') ! 0 = spans (process s) ! 0
    \<and> span_endTime (spans (process s') ! 0) = Some 4"
  using ended_span_is_final [of 0
      "step (SendEvent ''done'' None None None) (boot exampleContext None None 4)"
      "[SpanSetAttributes 0 [''late'' \<mapsto> NumberValue 1], SpanEnd 0 (Some 99),
        SetGlobalAttributes (DAList.update ''g'' (BooleanValue False) DAList.empty),
        SendEvent ''next'' None None None]"]
  by (simp add: Let_def sentSpan_endTime)

end
