(* ===== verification/Telemetry_Spec.thy ===== *)
theory Telemetry_Spec
  imports System
begin

text \<open>
  What the adapter promises to the code that calls it, without the SDK: a log of
  events. The abstract state holds the global attributes, whether telemetry is enabled,
  the clock, and one event per span handle. \<open>spec_step\<close> says what each call does to that
  log. The refinement theorems show that the adapter over the SDK behaves as this
  specification, whatever the context, the proxy agent and the debugging flag it was
  constructed with, and that the deferred export is invisible at this level.
\<close>

section \<open>The specification\<close>

record Event =
  ev_name :: string
  ev_startTime :: TimeInput
  ev_attributes :: Attributes
  ev_endTime :: "TimeInput option"
  ev_recorded :: bool

record telemetry =
  t_globals :: Attributes
  t_enabled :: bool
  t_clock :: TimeInput
  t_events :: "Event list"

definition started :: "telemetry \<Rightarrow> string \<Rightarrow> Attributes option \<Rightarrow> TimeInput option \<Rightarrow> Event" where
  "started T name data startTime =
     \<lparr>ev_name = name,
      ev_startTime = nullish startTime (t_clock T),
      ev_attributes =
        (if t_enabled T
         then t_globals T ++ (case data of None \<Rightarrow> Map.empty | Some d \<Rightarrow> d)
         else Map.empty),
      ev_endTime = None,
      ev_recorded = t_enabled T\<rparr>"

definition writable :: "telemetry \<Rightarrow> nat \<Rightarrow> bool" where
  "writable T h \<longleftrightarrow>
     h < length (t_events T) \<and> ev_recorded (t_events T ! h) \<and> ev_endTime (t_events T ! h) = None"

definition finish :: "telemetry \<Rightarrow> TimeInput option \<Rightarrow> Event \<Rightarrow> Event" where
  "finish T endTime e =
     (if ev_recorded e then e\<lparr>ev_endTime := Some (nullish endTime (t_clock T))\<rparr> else e)"

fun spec_step :: "Call \<Rightarrow> telemetry \<Rightarrow> telemetry" where
  "spec_step (SendEvent name data startTime endTime) T =
     T\<lparr>t_events := t_events T @ [finish T endTime (started T name data startTime)]\<rparr>"
| "spec_step (StartEvent name data startTime) T =
     T\<lparr>t_events := t_events T @ [started T name data startTime]\<rparr>"
| "spec_step (SetGlobalAttributes attributes) T = T\<lparr>t_globals := DAList.lookup attributes\<rparr>"
| "spec_step Dispose T = T\<lparr>t_enabled := False\<rparr>"
| "spec_step (SpanSetAttributes h attrs) T =
     (if writable T h
      then T\<lparr>t_events := (t_events T)
             [h := (t_events T ! h)\<lparr>ev_attributes := ev_attributes (t_events T ! h) ++ attrs\<rparr>]\<rparr>
      else T)"
| "spec_step (SpanEnd h endTime) T =
     (if writable T h
      then T\<lparr>t_events := (t_events T)[h := finish T endTime (t_events T ! h)]\<rparr>
      else T)"
| "spec_step BatchExport T = T"
| "spec_step (ExportBatch n) T = T"
| "spec_step (Tick d) T = T\<lparr>t_clock := t_clock T + int d\<rparr>"

definition spec_run :: "Call list \<Rightarrow> telemetry \<Rightarrow> telemetry" where
  "spec_run cs T = fold spec_step cs T"

definition spec_init :: "TimeInput \<Rightarrow> telemetry" where
  "spec_init t = \<lparr>t_globals = Map.empty, t_enabled = True, t_clock = t, t_events = []\<rparr>"

section \<open>The abstraction\<close>

definition eventOf :: "Span \<Rightarrow> Event" where
  "eventOf sp =
     \<lparr>ev_name = span_name sp, ev_startTime = span_startTime sp,
      ev_attributes = span_attributes sp, ev_endTime = span_endTime sp,
      ev_recorded = span_recording sp\<rparr>"

definition abstraction :: "system \<Rightarrow> telemetry" where
  "abstraction s =
     \<lparr>t_globals = globalAttributes (adapter s),
      t_enabled = (globalTracerProvider (process s) \<noteq> None),
      t_clock = now (process s),
      t_events = map eventOf (spans (process s))\<rparr>"

section \<open>Facts about the abstraction\<close>

lemma eventOf_simps [simp]:
  "ev_name (eventOf sp) = span_name sp"
  "ev_startTime (eventOf sp) = span_startTime sp"
  "ev_attributes (eventOf sp) = span_attributes sp"
  "ev_endTime (eventOf sp) = span_endTime sp"
  "ev_recorded (eventOf sp) = span_recording sp"
  by (simp_all add: eventOf_def)

lemma eventOf_update [simp]:
  "eventOf (sp\<lparr>span_attributes := m\<rparr>) = (eventOf sp)\<lparr>ev_attributes := m\<rparr>"
  "eventOf (sp\<lparr>span_endTime := t\<rparr>) = (eventOf sp)\<lparr>ev_endTime := t\<rparr>"
  by (simp_all add: eventOf_def)

lemma abstraction_simps [simp]:
  "t_globals (abstraction s) = globalAttributes (adapter s)"
  "t_enabled (abstraction s) \<longleftrightarrow> globalTracerProvider (process s) \<noteq> None"
  "t_clock (abstraction s) = now (process s)"
  "t_events (abstraction s) = map eventOf (spans (process s))"
  by (simp_all add: abstraction_def)

lemma telemetry_eqI:
  "t_globals T = t_globals U \<Longrightarrow> t_enabled T = t_enabled U \<Longrightarrow> t_clock T = t_clock U \<Longrightarrow>
   t_events T = t_events U \<Longrightarrow> T = (U :: telemetry)"
  by simp

lemma eventOf_openedSpan:
  "eventOf (openedSpan (process s) (adapter s) n d st) = started (abstraction s) n d st"
  by (simp add: eventOf_def started_def openedSpan_attributes eventAttributes_def)

lemma eventOf_sentSpan:
  "eventOf (sentSpan (process s) (adapter s) n d st et) =
     finish (abstraction s) et (started (abstraction s) n d st)"
  by (simp add: eventOf_def started_def finish_def sentSpan_endTime openedSpan_attributes
      eventAttributes_def)

lemma writable_abstraction:
  "writable (abstraction s) h \<longleftrightarrow>
     h < length (spans (process s)) \<and> isOpen (spans (process s) ! h)"
  by (auto simp: writable_def isOpen_def)

lemma spec_run_simps [simp]:
  "spec_run [] T = T"
  "spec_run (call # cs) T = spec_run cs (spec_step call T)"
  "spec_run (cs @ ds) T = spec_run ds (spec_run cs T)"
  by (simp_all add: spec_run_def)

lemma abstraction_boot: "abstraction (boot c a dbg t) = spec_init t"
  by (simp add: abstraction_def spec_init_def)

section \<open>Refinement\<close>

lemma abstraction_step: "abstraction (step call s) = spec_step call (abstraction s)"
proof (cases call)
  case (SendEvent n d st et)
  then show ?thesis
    by (intro telemetry_eqI) (simp_all add: eventOf_sentSpan)
next
  case (StartEvent n d st)
  then show ?thesis
    by (intro telemetry_eqI) (simp_all add: eventOf_openedSpan)
next
  case (SpanSetAttributes h attrs)
  then show ?thesis
    by (intro telemetry_eqI)
       (simp_all add: writable_abstraction setAttributes_spans map_update)
next
  case (SpanEnd h t)
  then show ?thesis
    by (intro telemetry_eqI)
       (auto simp: writable_abstraction endSpan_spans map_update finish_def isOpen_def)
qed (intro telemetry_eqI; simp)+

lemma abstraction_run: "abstraction (run cs s) = spec_run cs (abstraction s)"
  by (induction cs arbitrary: s) (simp_all add: abstraction_step)

text \<open>
  C15. Refinement, one call at a time. Seen as a log of events, every call on the
  adapter, on a span handle or by the environment does to the state of the adapter over
  the SDK exactly what the specification says it does to the log. The deferred export
  changes nothing in the log, and the processors, exporters and resource do not show in
  it.
\<close>

theorem step_refines_spec: "abstraction (step call s) = spec_step call (abstraction s)"
  by (rule abstraction_step)

text \<open>
  C16. Refinement of whole sessions. An adapter constructed at time \<open>t\<close> and then used
  through any sequence of calls has the log the specification computes for that
  sequence from the empty log: the context, the proxy agent and the debugging flag
  have no influence on what is recorded.
\<close>

theorem session_refines_spec:
  "abstraction (run cs (boot c a dbg t)) = spec_run cs (spec_init t)"
  by (simp add: abstraction_run abstraction_boot)

end
