(* ===== verification/Delivery.thy ===== *)
theory Delivery
  imports Telemetry_Spec
begin

text \<open>
  What reaches the collector. A held-back span can be lost, when its export fails for
  good or the process ends first, and the two endpoints must never be mixed up. The
  system description says that spans may be dropped but not which or when, so the
  environment of this theory may drop any held-back entry at any time. The theorems
  show what holds all the same: loss takes entries away but adds none, an event arrives
  as it was sent, and no span goes to the endpoint of the other mode.
\<close>

section \<open>An environment that loses held-back spans\<close>

abbreviation lose :: "nat \<Rightarrow> system \<Rightarrow> system" where
  "lose i s \<equiv> s\<lparr>process := dropPending i (process s)\<rparr>"

text \<open>
  The states an adapter can get into when, besides the calls of \<open>step\<close>, any held-back
  entry may disappear at any time.
\<close>

inductive lossyReachable ::
  "TelemetryContext \<Rightarrow> HttpsProxyAgent option \<Rightarrow> bool option \<Rightarrow> system \<Rightarrow> bool"
  for c a dbg where
    lossy_boot: "lossyReachable c a dbg (boot c a dbg t)"
  | lossy_step: "lossyReachable c a dbg s \<Longrightarrow> lossyReachable c a dbg (step call s)"
  | lossy_lose: "lossyReachable c a dbg s \<Longrightarrow> lossyReachable c a dbg (lose i s)"

text \<open>A session for the worked instances: two events are sent and the first is lost.\<close>

definition exampleLossyRun :: system where
  "exampleLossyRun =
     step BatchExport
       (lose 0 (run [SendEvent ''one'' None None None, SendEvent ''two'' None None None]
                  (boot exampleContext None None 0)))"

section \<open>Facts about loss\<close>

lemma reachable_lossyReachable: "reachable c a dbg s \<Longrightarrow> lossyReachable c a dbg s"
  by (induction rule: reachable.induct) (auto intro: lossyReachable.intros)

lemma lossyReachable_run:
  "lossyReachable c a dbg s \<Longrightarrow> lossyReachable c a dbg (run cs s)"
  by (induction cs arbitrary: s) (auto intro: lossy_step)

lemma lossyReachable_example: "lossyReachable exampleContext None None exampleLossyRun"
  unfolding exampleLossyRun_def
  by (intro lossy_step lossy_lose lossyReachable_run lossy_boot)

lemma configured_lose [simp]: "configured c a dbg (lose i s) \<longleftrightarrow> configured c a dbg s"
  by (simp add: configured_def)

lemma lossyReachable_configured: "lossyReachable c a dbg s \<Longrightarrow> configured c a dbg s"
  by (induction rule: lossyReachable.induct) (simp_all add: configured_boot configured_step)

lemma lossyReachable_noSpurious: "lossyReachable c a dbg s \<Longrightarrow> noSpurious (process s)"
proof (induction rule: lossyReachable.induct)
  case (lossy_boot t)
  show ?case by (simp add: conserved_noSpurious)
next
  case (lossy_step s call)
  then show ?case by (auto intro: gains_noSpurious [OF gains_step])
next
  case (lossy_lose s i)
  then show ?case by (simp add: noSpurious_dropPending)
qed

lemma lossyReachable_exporter:
  assumes "lossyReachable c a dbg s"
    and "(e, sp) \<in> set (exported (process s)) \<union> set (pending (process s))"
  shows "e \<in> exporterOf ` set (pipelineOf a dbg)"
proof -
  from assms(1) have n: "noSpurious (process s)" by (rule lossyReachable_noSpurious)
  from noSpurious_member [OF n assms(2)]
  have "isEnded sp" "sp \<in> set (spans (process s))" "e \<in> exporterOf ` set (span_processors sp)"
    by simp_all
  moreover from assms(1) have "list_all (spanConfigured c a dbg) (spans (process s))"
    by (auto dest: lossyReachable_configured simp: configured_def)
  ultimately show ?thesis
    by (auto simp: list_all_iff spanConfigured_def isEnded_def)
qed

section \<open>Properties of delivery\<close>

text \<open>
  C24. Loss takes away and never adds. In an environment that may drop any held-back
  entry at any time, every state the adapter can reach has in its pipeline, exported or
  held back, only hand-overs of ended spans of the store to exporters the constructor
  attached, and none of them more often than once per processor: no export is made up
  and none is repeated.
\<close>

theorem loss_never_adds:
  assumes "lossyReachable c a dbg s"
  shows "mset (exported (process s)) + mset (pending (process s)) \<subseteq>#
     (\<Sum>sp \<in># filter_mset isEnded (mset (spans (process s))).
        mset (map (\<lambda>p. (exporterOf p, sp)) (pipelineOf a dbg)))"
proof -
  from assms have "list_all (spanConfigured c a dbg) (spans (process s))"
    by (auto dest: lossyReachable_configured simp: configured_def)
  with lossyReachable_noSpurious [OF assms] show ?thesis
    by (simp add: noSpurious_def owed_configured)
qed

theorem loss_never_adds_witness:
  "map (span_name \<circ> snd) (exported (process exampleLossyRun)) = [''two'']
   \<and> map span_name (filter isEnded (spans (process exampleLossyRun))) = [''one'', ''two'']
   \<and> mset (exported (process exampleLossyRun)) + mset (pending (process exampleLossyRun)) \<subseteq>#
     (\<Sum>sp \<in># filter_mset isEnded (mset (spans (process exampleLossyRun))).
        mset (map (\<lambda>p. (exporterOf p, sp)) (pipelineOf None None)))"
  using loss_never_adds [OF lossyReachable_example]
  by (simp add: exampleLossyRun_def)

text \<open>
  C25. An event arrives as it was sent. For an adapter constructed with debugging off
  and not disposed, in every state it can reach, an event sent and then exported is the
  last entry handed to the exporter of the production endpoint, and that entry carries
  the name given, the start and end times given or else the time of the call, and the
  global attributes overlaid by the event's data.
\<close>

theorem send_receive_roundtrip:
  assumes "reachable c a dbg s" and "\<not> truthy dbg"
    and "globalTracerProvider (process s) \<noteq> None"
  shows "let s' = run [SendEvent name data startTime endTime, BatchExport] s;
             (e, sp) = last (exported (process s'))
         in e = newExporter a dbg
          \<and> endpointOf e = Some prodEndpoint
          \<and> eventOf sp =
              \<lparr>ev_name = name,
               ev_startTime = nullish startTime (now (process s)),
               ev_attributes = globalAttributes (adapter s) ++ nullish data Map.empty,
               ev_endTime = Some (nullish endTime (now (process s))),
               ev_recorded = True\<rparr>"
proof -
  from assms(1) have "configured c a dbg s" by (rule reachable_configured)
  with assms(3) have "globalTracerProvider (process s) = Some (builtProvider c a dbg)"
    by (auto simp: configured_def)
  with assms(2) show ?thesis
    by (cases data)
       (simp_all add: Let_def providerProcessors_def eventOf_def sentSpan_endTime
          openedSpan_attributes)
qed

theorem send_receive_roundtrip_witness:
  "let s' = run [SendEvent ''saved'' (Some [''files'' \<mapsto> NumberValue 3]) (Some 5) None,
                 BatchExport]
              (step (SetGlobalAttributes (DAList.update ''plan'' (StringValue ''pro'') DAList.empty))
                 (boot exampleContext None None 20));
       (e, sp) = last (exported (process s'))
   in endpointOf e = Some prodEndpoint
    \<and> eventOf sp =
        \<lparr>ev_name = ''saved'', ev_startTime = 5,
         ev_attributes = [''plan'' \<mapsto> StringValue ''pro'', ''files'' \<mapsto> NumberValue 3],
         ev_endTime = Some 20, ev_recorded = True\<rparr>"
proof -
  let ?s = "step (SetGlobalAttributes (DAList.update ''plan'' (StringValue ''pro'') DAList.empty))
              (boot exampleContext None None 20)"
  have "reachable exampleContext None None ?s"
    by (intro reachable_step reachable_boot)
  from send_receive_roundtrip [OF this, of "''saved''" "Some [''files'' \<mapsto> NumberValue 3]"
      "Some 5" None]
  show ?thesis
    by (simp add: Let_def fromEntriesMap_update fromEntriesMap_empty map_add_def fun_eq_iff)
qed

text \<open>
  C26. The endpoints are never mixed up. Whatever is called and whatever is lost, an
  adapter constructed with debugging off hands spans to the exporter of the production
  endpoint only, never to the console and never to the development endpoint; an adapter
  constructed with debugging on hands spans to the console and to the development
  endpoint, never to the production endpoint.
\<close>

theorem traffic_separation:
  assumes "lossyReachable c a dbg s"
    and "(e, sp) \<in> set (exported (process s)) \<union> set (pending (process s))"
  shows "endpointOf e \<noteq> Some (if truthy dbg then prodEndpoint else devEndpoint)
       \<and> (\<not> truthy dbg \<longrightarrow> endpointOf e = Some prodEndpoint)
       \<and> (truthy dbg \<longrightarrow> endpointOf e \<in> {None, Some devEndpoint})"
  using lossyReachable_exporter [OF assms]
  by (cases "truthy dbg") auto

theorem traffic_separation_witness:
  "exported (process exampleLossyRun) \<noteq> []
   \<and> endpointOf (fst (hd (exported (process exampleLossyRun)))) = Some prodEndpoint
   \<and> endpointOf (fst (hd (exported (process exampleLossyRun)))) \<noteq> Some devEndpoint"
  using traffic_separation [OF lossyReachable_example,
      of "fst (hd (exported (process exampleLossyRun)))"
         "snd (hd (exported (process exampleLossyRun)))"]
  by (simp add: exampleLossyRun_def)

end
