(* ===== verification/Sessions.thy ===== *)
theory Sessions
  imports System
begin

text \<open>
  Properties of whole sessions that depend on how the adapter is used. If no caller ends
  a span by hand, the events reach the exporters in the order they were sent. If no
  caller passes a time of its own, every span starts and ends between the construction
  of the adapter and now, in that order. After \<^verbatim>\<open>dispose\<close> nothing new is recorded.
  Each is an invariant of \<open>step\<close> under a condition on the calls, carried over \<open>run\<close> by
  one induction.
\<close>

section \<open>Kinds of calls\<close>

fun endsSpan :: "Call \<Rightarrow> bool" where
  "endsSpan (SpanEnd h t) = True"
| "endsSpan c = False"

fun untimed :: "Call \<Rightarrow> bool" where
  "untimed (SendEvent n d st et) \<longleftrightarrow> st = None \<and> et = None"
| "untimed (StartEvent n d st) \<longleftrightarrow> st = None"
| "untimed (SpanEnd h et) \<longleftrightarrow> et = None"
| "untimed c = True"

section \<open>Invariants of sessions\<close>

text \<open>
  \<open>inOrder\<close>: what was exported, followed by what is held back, is the hand-overs of the
  ended spans in the order of the span store. \<open>timely t0\<close>: the clock has not gone back
  behind \<open>t0\<close> and every span started at or after \<open>t0\<close>, not after now, and ended, if it
  ended, between its start and now. \<open>disabledFrom n\<close>: no provider is registered and the
  spans from handle \<open>n\<close> on do not record.
\<close>

definition inOrder :: "world \<Rightarrow> bool" where
  "inOrder w \<longleftrightarrow>
     exported w @ pending w = concat (map deliveries (filter isEnded (spans w)))"

definition spanTimely :: "TimeInput \<Rightarrow> TimeInput \<Rightarrow> Span \<Rightarrow> bool" where
  "spanTimely t0 t sp \<longleftrightarrow>
     t0 \<le> span_startTime sp \<and> span_startTime sp \<le> t
     \<and> (case span_endTime sp of None \<Rightarrow> True | Some e \<Rightarrow> span_startTime sp \<le> e \<and> e \<le> t)"

definition timely :: "TimeInput \<Rightarrow> world \<Rightarrow> bool" where
  "timely t0 w \<longleftrightarrow> t0 \<le> now w \<and> list_all (spanTimely t0 (now w)) (spans w)"

definition disabledFrom :: "nat \<Rightarrow> world \<Rightarrow> bool" where
  "disabledFrom n w \<longleftrightarrow>
     globalTracerProvider w = None \<and> n \<le> length (spans w)
     \<and> list_all (\<lambda>sp. \<not> span_recording sp) (drop n (spans w))"

section \<open>Carrying an invariant over a run\<close>

lemma run_invariant:
  assumes "\<And>s call. reachable c a dbg s \<Longrightarrow> I s \<Longrightarrow> ok call \<Longrightarrow> I (step call s)"
    and "reachable c a dbg s" and "I s" and "list_all ok cs"
  shows "I (run cs s)"
  using assms(2-)
proof (induction cs arbitrary: s)
  case Nil
  then show ?case by simp
next
  case (Cons call cs)
  from Cons.prems have "reachable c a dbg (step call s)" and "I (step call s)"
    by (auto intro: reachable_step assms(1))
  with Cons show ?case by simp
qed

section \<open>Order of delivery\<close>

lemma inOrder_boot [simp]: "inOrder (process (boot c a dbg t))"
  by (simp add: inOrder_def)

lemma inOrder_sendEvent:
  assumes "inOrder w" and "globalTracerProvider w \<in> {None, Some (builtProvider c a dbg)}"
    and "truthy dbg \<Longrightarrow> pending w = []"
  shows "inOrder (sendEvent this n d st et w)"
  using assms
  by (auto simp: inOrder_def providerProcessors_def pipelineOf_split deliveries_def)

lemma inOrder_step:
  assumes "reachable c a dbg s" and "inOrder (process s)" and "\<not> endsSpan call"
  shows "inOrder (process (step call s))"
proof (cases call)
  case (SendEvent n d st et)
  from assms(1) have "globalTracerProvider (process s) \<in> {None, Some (builtProvider c a dbg)}"
    by (auto dest: reachable_configured simp: configured_def)
  with SendEvent assms(1,2) show ?thesis
    by (simp add: inOrder_sendEvent reachable_pending_debug)
qed (use assms(2,3) in \<open>simp_all add: inOrder_def\<close>)

lemma inOrder_run:
  assumes "reachable c a dbg s" and "inOrder (process s)" and "list_all (\<lambda>c. \<not> endsSpan c) cs"
  shows "inOrder (process (run cs s))"
  using inOrder_step assms
  by (rule run_invariant [where I = "\<lambda>s. inOrder (process s)" and ok = "\<lambda>c. \<not> endsSpan c"])

lemma deliveries_configured:
  assumes "list_all (spanConfigured c a dbg) sps"
  shows "map deliveries (filter isEnded sps) =
     map (\<lambda>sp. map (\<lambda>p. (exporterOf p, sp)) (pipelineOf a dbg)) (filter isEnded sps)"
  using assms by (auto simp: list_all_iff spanConfigured_def isEnded_def deliveries_def)

section \<open>Times\<close>

lemma spanTimely_update [simp]:
  "spanTimely t0 t (sp\<lparr>span_attributes := m\<rparr>) = spanTimely t0 t sp"
  by (simp add: spanTimely_def split: option.splits)

lemma spanTimely_mono: "spanTimely t0 t sp \<Longrightarrow> t \<le> t' \<Longrightarrow> spanTimely t0 t' sp"
  by (auto simp: spanTimely_def split: option.splits)

lemma spanTimely_end:
  "spanTimely t0 t sp \<Longrightarrow> spanTimely t0 t (sp\<lparr>span_endTime := Some t\<rparr>)"
  by (simp add: spanTimely_def)

lemma timely_boot [simp]: "timely t (process (boot c a dbg t))"
  by (simp add: timely_def)

lemma timely_endSpan: "timely t0 w \<Longrightarrow> timely t0 (endSpan h None w)"
  by (auto simp: timely_def endSpan_spans list_all_length nth_list_update spanTimely_end)

lemma timely_step:
  assumes "timely t0 (process s)" and "untimed call"
  shows "timely t0 (process (step call s))"
proof (cases call)
  case (Tick k)
  with assms(1) show ?thesis
    by (auto simp: timely_def list_all_iff intro: spanTimely_mono)
next
  case (SpanEnd h t)
  with assms show ?thesis by (simp add: timely_endSpan)
next
  case (SpanSetAttributes h attrs)
  with assms(1) show ?thesis
    by (simp add: timely_def list_all_spans_setAttributes)
qed (use assms in \<open>auto simp: timely_def spanTimely_def sentSpan_endTime\<close>)

lemma timely_run:
  assumes "timely t0 (process s)" and "reachable c a dbg s" and "list_all untimed cs"
  shows "timely t0 (process (run cs s))"
  using timely_step assms(2,1,3)
  by (rule run_invariant [where I = "\<lambda>s. timely t0 (process s)" and ok = untimed])

lemma timely_duration:
  assumes "timely t0 w" and "sp \<in> set (spans w)" and "duration sp = Some d"
  shows "0 \<le> d" and "d \<le> now w - t0"
  using assms by (auto simp: timely_def list_all_iff spanTimely_def duration_def)

section \<open>After dispose\<close>

lemma disabledFrom_dispose [simp]:
  "disabledFrom (length (spans (process s))) (process (step Dispose s))"
  by (simp add: disabledFrom_def)

lemma disabledFrom_step:
  assumes "disabledFrom n (process s)"
  shows "disabledFrom n (process (step call s))"
  using assms unfolding disabledFrom_def
  by (cases call)
     (auto simp: list_all_drop_snoc list_all_drop_spans_setAttributes list_all_drop_spans_endSpan)

lemma disabledFrom_run: "disabledFrom n (process s) \<Longrightarrow> disabledFrom n (process (run cs s))"
  by (induction cs arbitrary: s) (simp_all add: disabledFrom_step)

lemma disabledFrom_not_delivered:
  assumes "conserved w" and "disabledFrom n w"
  shows "snd ` (set (exported w) \<union> set (pending w)) \<inter> set (drop n (spans w)) = {}"
proof -
  have "\<not> span_recording sp" if "sp \<in> set (drop n (spans w))" for sp
    using that assms(2) by (auto simp: disabledFrom_def list_all_iff)
  moreover have "span_recording sp" if "(e, sp) \<in> set (exported w) \<union> set (pending w)" for e sp
    using conserved_member(1) [OF assms(1) that] by (simp add: isEnded_def)
  ultimately show ?thesis by fastforce
qed

section \<open>Properties of sessions\<close>

text \<open>
  C20. Events arrive in the order they were sent. In a session in which no caller ends a
  span by hand, what has been exported, followed by what is held back, is the ended
  spans in the order of the span store, each handed to the exporters of the pipeline in
  the order the constructor attached them. The deferred export moves entries from the
  held-back part to the exported part and never reorders them.
\<close>

theorem events_delivered_in_order:
  assumes "list_all (\<lambda>call. \<not> endsSpan call) cs"
  shows "let w = process (run cs (boot c a dbg t))
         in exported w @ pending w =
            concat (map (\<lambda>sp. map (\<lambda>p. (exporterOf p, sp)) (pipelineOf a dbg))
                      (filter isEnded (spans w)))"
proof -
  let ?s = "run cs (boot c a dbg t)"
  have r: "reachable c a dbg ?s" by (intro reachable_run reachable_boot)
  then have "list_all (spanConfigured c a dbg) (spans (process ?s))"
    by (auto dest: reachable_configured simp: configured_def)
  moreover have "inOrder (process ?s)"
    using assms by (intro inOrder_run [of c a dbg] reachable_boot) simp_all
  ultimately show ?thesis
    by (simp add: inOrder_def deliveries_configured)
qed

theorem events_delivered_in_order_witness:
  "let w = process (run [SendEvent ''one'' None None None, SendEvent ''two'' None None None,
                         BatchExport, StartEvent ''open'' None None,
                         SendEvent ''three'' None None None]
                     (boot exampleContext None None 0))
   in map (span_name \<circ> snd) (exported w) = [''one'', ''two'']
    \<and> map (span_name \<circ> snd) (pending w) = [''three'']
    \<and> exported w @ pending w =
        concat (map (\<lambda>sp. map (\<lambda>p. (exporterOf p, sp)) (pipelineOf None None))
                  (filter isEnded (spans w)))"
  using events_delivered_in_order [of
      "[SendEvent ''one'' None None None, SendEvent ''two'' None None None,
        BatchExport, StartEvent ''open'' None None, SendEvent ''three'' None None None]"
      exampleContext None None 0]
  by (simp add: Let_def)

text \<open>
  C21. If no caller passes a time of its own, the times of the spans are sound: the
  clock never goes back behind the time of construction, and every span starts at or
  after the construction and not after now, and ends, if it has ended, at or after its
  start and not after now. So no duration is negative and none is longer than the
  session.
\<close>

theorem untimed_session_is_timely:
  assumes "list_all untimed cs"
  shows "let w = process (run cs (boot c a dbg t))
         in timely t w
          \<and> (\<forall>sp \<in> set (spans w).
               case duration sp of None \<Rightarrow> True | Some d \<Rightarrow> 0 \<le> d \<and> d \<le> now w - t)"
proof -
  have "timely t (process (run cs (boot c a dbg t)))"
    using assms by (intro timely_run [of _ _ c a dbg] reachable_boot) simp_all
  then show ?thesis
    by (auto simp: Let_def split: option.splits dest: timely_duration)
qed

theorem untimed_session_is_timely_witness:
  "let w = process (run [StartEvent ''long'' None None, Tick 30,
                         SendEvent ''short'' None None None, Tick 12, SpanEnd 0 None]
                     (boot exampleContext None None 1000))
   in map duration (spans w) = [Some 42, Some 0] \<and> now w = 1042 \<and> timely 1000 w"
  using untimed_session_is_timely [of
      "[StartEvent ''long'' None None, Tick 30, SendEvent ''short'' None None None, Tick 12,
        SpanEnd 0 None]" exampleContext None None 1000]
  by (simp add: Let_def duration_def sentSpan_endTime endSpan_spans isOpen_def nth_append)

text \<open>
  C22. After \<^verbatim>\<open>dispose\<close> nothing new is recorded. Whatever is called afterwards, no
  provider is registered again, the spans started after the \<^verbatim>\<open>dispose\<close> do not record
  and never count as ended, and none of them is ever exported or held back. Only spans
  started before can still reach the pipeline.
\<close>

theorem dispose_stops_recording:
  assumes "reachable c a dbg s"
  shows "let n = length (spans (process s));
             w = process (run cs (step Dispose s))
         in globalTracerProvider w = None
          \<and> list_all (\<lambda>sp. \<not> span_recording sp \<and> \<not> isEnded sp) (drop n (spans w))
          \<and> snd ` (set (exported w) \<union> set (pending w)) \<inter> set (drop n (spans w)) = {}"
proof -
  let ?w = "process (run cs (step Dispose s))"
  have d: "disabledFrom (length (spans (process s))) ?w"
    by (intro disabledFrom_run disabledFrom_dispose)
  from assms have "conserved ?w"
    by (intro reachable_conserved [of c a dbg] reachable_run reachable_step)
  from disabledFrom_not_delivered [OF this d] d show ?thesis
    by (auto simp: Let_def disabledFrom_def list_all_iff isEnded_def)
qed

theorem dispose_stops_recording_witness:
  "let s = run [SendEvent ''before'' None None None] (boot exampleContext None (Some True) 0);
       w = process (run [SendEvent ''after'' None None None, StartEvent ''late'' None None,
                         SpanEnd 2 None, BatchExport] (step Dispose s))
   in map span_name (spans w) = [''before'', ''after'', ''late'']
    \<and> map (span_name \<circ> snd) (exported w) = [''before'', ''before'']
    \<and> list_all (\<lambda>sp. \<not> span_recording sp \<and> \<not> isEnded sp) (drop 1 (spans w))"
  using dispose_stops_recording [of exampleContext None "Some True"
      "run [SendEvent ''before'' None None None] (boot exampleContext None (Some True) 0)"
      "[SendEvent ''after'' None None None, StartEvent ''late'' None None,
        SpanEnd 2 None, BatchExport]"]
  by (simp add: Let_def reachable_run reachable_boot endSpan_spans isOpen_def isEnded_def
      nth_append)

text \<open>
  C23. A span only moves along its life cycle. Between any state and any later one,
  the span under a handle has gone through a sequence of steps each of which adds
  attributes to an open span or closes an open span. Its name, start time, resource and
  processors are those it was started with, and a span that has ended is not reopened.
\<close>

theorem span_follows_lifecycle:
  assumes "h < length (spans (process s))"
  shows "let sp = spans (process s) ! h; sp' = spans (process (run cs s)) ! h
         in lifecycle\<^sup>*\<^sup>* sp sp'
          \<and> span_name sp' = span_name sp \<and> span_startTime sp' = span_startTime sp
          \<and> span_resource sp' = span_resource sp \<and> span_processors sp' = span_processors sp
          \<and> (isEnded sp \<longrightarrow> isEnded sp')"
proof -
  from assms
  have l: "lifecycle\<^sup>*\<^sup>* (spans (process s) ! h) (spans (process (run cs s)) ! h)"
    by (rule run_lifecycle)
  from lifecycles_keep [OF l] lifecycles_ended [OF l] l show ?thesis
    by (auto simp: Let_def)
qed

theorem span_follows_lifecycle_witness:
  "let s = step (StartEvent ''work'' None None) (boot exampleContext None None 3);
       sp = spans (process s) ! 0;
       sp' = spans (process (run [SpanSetAttributes 0 [''files'' \<mapsto> NumberValue 2], Tick 4,
                                  SpanEnd 0 None, SpanEnd 0 (Some 99)] s)) ! 0
   in lifecycle\<^sup>*\<^sup>* sp sp' \<and> isOpen sp \<and> isEnded sp'
    \<and> span_endTime sp' = Some 7 \<and> span_attributes sp' ''files'' = Some (NumberValue 2)
    \<and> span_name sp' = ''work'' \<and> span_startTime sp' = 3"
  using span_follows_lifecycle [of 0
      "step (StartEvent ''work'' None None) (boot exampleContext None None 3)"
      "[SpanSetAttributes 0 [''files'' \<mapsto> NumberValue 2], Tick 4, SpanEnd 0 None,
        SpanEnd 0 (Some 99)]"]
  by (simp add: Let_def setAttributes_spans endSpan_spans isOpen_def isEnded_def
      openedSpan_attributes)

end
