(* ===== verification/Construction_Faults.thy ===== *)
theory Construction_Faults
  imports Provider
begin

text \<open>
  The constructor when the SDK refuses what it is given. The class catches nothing, so
  an error raised by \<^verbatim>\<open>new Resource\<close> or by \<^verbatim>\<open>new OTLPTraceExporter\<close> ends the
  constructor where it stands: no adapter comes back, and what the statements before the
  failing one did to the process stays done. The SDK's checks are a parameter, a record
  of two predicates; raising is the left summand of the result. With checks that accept
  everything this constructor is the one of theory \<open>Provider\<close>, and a construction that
  raises leaves a world that differs from the one before in the diagnostic logger at
  most.
\<close>

section \<open>A fallible SDK\<close>

datatype SdkError = InvalidResource | ExporterMisconfigured

record Sdk =
  resourceOk :: "Resource \<Rightarrow> bool"
  exporterOk :: "OTLPExporterConfig \<Rightarrow> bool"

definition newResource :: "Sdk \<Rightarrow> Resource \<Rightarrow> SdkError + Resource" where
  "newResource sdk attrs = (if resourceOk sdk attrs then Inr attrs else Inl InvalidResource)"

definition newOTLPTraceExporter :: "Sdk \<Rightarrow> OTLPExporterConfig \<Rightarrow> SdkError + SpanExporter" where
  "newOTLPTraceExporter sdk config =
     (if exporterOk sdk config then Inr (OTLPTraceExporter config) else Inl ExporterMisconfigured)"

section \<open>The constructor, statement by statement\<close>

definition tryConstructor ::
  "Sdk \<Rightarrow> TelemetryContext \<Rightarrow> HttpsProxyAgent option \<Rightarrow> bool option \<Rightarrow> world
     \<Rightarrow> (SdkError + OpenTelemetryProvider) \<times> world" where
  "tryConstructor sdk context agent debugging w =
     (case newResource sdk (resourceOf context) of
        Inl e \<Rightarrow> (Inl e, w)
      | Inr res \<Rightarrow>
          let provider = \<lparr>resource = res, processors = []\<rparr>;
              w = (if truthy debugging then setLogger DiagConsoleLogger VERBOSE w else w);
              provider = (if truthy debugging
                          then addSpanProcessor (SimpleSpanProcessor ConsoleSpanExporter) provider
                          else provider)
          in case newOTLPTraceExporter sdk (exporterOptions agent debugging) of
               Inl e \<Rightarrow> (Inl e, w)
             | Inr exporter \<Rightarrow>
                 let provider = addSpanProcessor (exportProcessor debugging exporter) provider;
                     w = register provider w
                 in (Inr \<lparr>globalAttributes = Map.empty,
                          tracer = getTracer (extensionId context) w\<rparr>, w))"

text \<open>\<open>accepts sdk c a dbg\<close>: the SDK raises for none of the objects the constructor builds.\<close>

definition accepts ::
  "Sdk \<Rightarrow> TelemetryContext \<Rightarrow> HttpsProxyAgent option \<Rightarrow> bool option \<Rightarrow> bool" where
  "accepts sdk c a dbg \<longleftrightarrow>
     resourceOk sdk (resourceOf c) \<and> exporterOk sdk (exporterOptions a dbg)"

text \<open>An SDK that accepts everything, and one that refuses every exporter.\<close>

definition permissive :: Sdk where
  "permissive = \<lparr>resourceOk = (\<lambda>r. True), exporterOk = (\<lambda>c. True)\<rparr>"

definition noExporter :: Sdk where
  "noExporter = \<lparr>resourceOk = (\<lambda>r. True), exporterOk = (\<lambda>c. False)\<rparr>"

section \<open>Outcomes\<close>

lemma newResource_simps [simp]:
  "resourceOk sdk r \<Longrightarrow> newResource sdk r = Inr r"
  "\<not> resourceOk sdk r \<Longrightarrow> newResource sdk r = Inl InvalidResource"
  by (simp_all add: newResource_def)

lemma newOTLPTraceExporter_simps [simp]:
  "exporterOk sdk c \<Longrightarrow> newOTLPTraceExporter sdk c = Inr (OTLPTraceExporter c)"
  "\<not> exporterOk sdk c \<Longrightarrow> newOTLPTraceExporter sdk c = Inl ExporterMisconfigured"
  by (simp_all add: newOTLPTraceExporter_def)

lemma tryConstructor_ok:
  assumes "resourceOk sdk (resourceOf c)" and "exporterOk sdk (exporterOptions a dbg)"
  shows "tryConstructor sdk c a dbg w =
     (Inr (fst (constructor c a dbg w)), snd (constructor c a dbg w))"
  using assms by (simp add: tryConstructor_def constructor_def newExporter_def Let_def)

lemma tryConstructor_permissive [simp]:
  "tryConstructor permissive c a dbg w =
     (Inr (fst (constructor c a dbg w)), snd (constructor c a dbg w))"
  by (simp add: tryConstructor_ok permissive_def)

lemma tryConstructor_InvalidResource:
  "\<not> resourceOk sdk (resourceOf c) \<Longrightarrow> tryConstructor sdk c a dbg w = (Inl InvalidResource, w)"
  by (simp add: tryConstructor_def)

lemma tryConstructor_ExporterMisconfigured:
  assumes "resourceOk sdk (resourceOf c)" and "\<not> exporterOk sdk (exporterOptions a dbg)"
  shows "tryConstructor sdk c a dbg w =
     (Inl ExporterMisconfigured,
      if truthy dbg then setLogger DiagConsoleLogger VERBOSE w else w)"
  using assms by (simp add: tryConstructor_def Let_def)

lemma tryConstructor_noExporter [simp]:
  "tryConstructor noExporter c a dbg w =
     (Inl ExporterMisconfigured,
      if truthy dbg then w\<lparr>diag := Some (DiagConsoleLogger, VERBOSE)\<rparr> else w)"
  by (simp add: tryConstructor_ExporterMisconfigured noExporter_def setLogger_def)

section \<open>Raising and returning\<close>

lemma accepts_examples [simp]:
  "accepts permissive c a dbg" "\<not> accepts noExporter c a dbg"
  by (simp_all add: accepts_def permissive_def noExporter_def)

lemma tryConstructor_accepts:
  "accepts sdk c a dbg \<Longrightarrow>
   tryConstructor sdk c a dbg w = (Inr (fst (constructor c a dbg w)), snd (constructor c a dbg w))"
  by (simp add: accepts_def tryConstructor_ok)

lemma isl_tryConstructor [simp]:
  "isl (fst (tryConstructor sdk c a dbg w)) \<longleftrightarrow> \<not> accepts sdk c a dbg"
  by (cases "resourceOk sdk (resourceOf c)"; cases "exporterOk sdk (exporterOptions a dbg)")
     (simp_all add: accepts_def tryConstructor_ok tryConstructor_InvalidResource
        tryConstructor_ExporterMisconfigured)

lemma tryConstructor_refused:
  "\<not> accepts sdk c a dbg \<Longrightarrow> sameButDiag (snd (tryConstructor sdk c a dbg w)) w"
  by (cases "resourceOk sdk (resourceOf c)")
     (simp_all add: accepts_def tryConstructor_InvalidResource
        tryConstructor_ExporterMisconfigured setLogger_def)

section \<open>Properties\<close>

text \<open>
  C27. The three outcomes of a construction. If the SDK refuses the resource, the
  constructor raises before it has done anything. If it refuses the exporter, the
  constructor raises with no provider registered, but when debugging it has by then
  replaced the diagnostic logger of the process, and that is not undone. Otherwise it
  returns the adapter and the process state of the constructor that cannot fail.
\<close>

theorem construction_outcomes:
  "tryConstructor sdk context agent debugging w =
     (if \<not> resourceOk sdk (resourceOf context) then (Inl InvalidResource, w)
      else if \<not> exporterOk sdk (exporterOptions agent debugging)
      then (Inl ExporterMisconfigured,
            if truthy debugging then w\<lparr>diag := Some (DiagConsoleLogger, VERBOSE)\<rparr> else w)
      else (Inr (fst (constructor context agent debugging w)),
            snd (constructor context agent debugging w)))"
  by (simp add: tryConstructor_def constructor_def newExporter_def newResource_def
      newOTLPTraceExporter_def setLogger_def Let_def)

end
