(* ===== verification/Instances.thy ===== *)
theory Instances
  imports System Construction_Faults
begin

text \<open>
  Several adapters in one process. Nothing stops a program from constructing the class
  more than once, and every construction registers its provider process-wide. A
  \<open>Request\<close> is a construction or a call addressed to one of the instances constructed
  so far; \<open>handle\<close> performs it on the list of instances and the one process they share.
  A construction is either one that cannot fail (\<open>Construct\<close>) or one under an SDK that
  may refuse (\<open>TryConstruct\<close>); a refused one adds no instance. The theorems say what
  stays true however many instances there are, that the system of theory \<open>System\<close> is
  the case of one instance, and that a refused construction changes nothing that a later
  request can see.
\<close>

section \<open>Requests\<close>

datatype Request =
    Construct TelemetryContext "HttpsProxyAgent option" "bool option"
  | TryConstruct Sdk TelemetryContext "HttpsProxyAgent option" "bool option"
  | On nat Call

record processState =
  instances :: "OpenTelemetryProvider list"
  shared :: world

fun handle :: "Request \<Rightarrow> processState \<Rightarrow> processState" where
  "handle (Construct c a dbg) P =
     (let (this, w) = constructor c a dbg (shared P)
      in \<lparr>instances = instances P @ [this], shared = w\<rparr>)"
| "handle (TryConstruct sdk c a dbg) P =
     (case tryConstructor sdk c a dbg (shared P) of
        (Inl e, w) \<Rightarrow> \<lparr>instances = instances P, shared = w\<rparr>
      | (Inr this, w) \<Rightarrow> \<lparr>instances = instances P @ [this], shared = w\<rparr>)"
| "handle (On i call) P =
     (if i < length (instances P)
      then let s = step call \<lparr>adapter = instances P ! i, process = shared P\<rparr>
           in \<lparr>instances = (instances P)[i := adapter s], shared = process s\<rparr>
      else P)"

definition serve :: "Request list \<Rightarrow> processState \<Rightarrow> processState" where
  "serve rs P = fold handle rs P"

definition fresh :: "TimeInput \<Rightarrow> processState" where
  "fresh t = \<lparr>instances = [], shared = initial_world t\<rparr>"

text \<open>
  The constructions that return among a list of requests, oldest first, and the provider
  each one registers.
\<close>

fun constructions ::
  "Request list \<Rightarrow> (TelemetryContext \<times> HttpsProxyAgent option \<times> bool option) list" where
  "constructions [] = []"
| "constructions (Construct c a dbg # rs) = (c, a, dbg) # constructions rs"
| "constructions (TryConstruct sdk c a dbg # rs) =
     (if accepts sdk c a dbg then [(c, a, dbg)] else []) @ constructions rs"
| "constructions (On i call # rs) = constructions rs"

definition providerOf ::
  "TelemetryContext \<times> HttpsProxyAgent option \<times> bool option \<Rightarrow> BasicTracerProvider" where
  "providerOf k = (case k of (c, a, dbg) \<Rightarrow> builtProvider c a dbg)"

text \<open>
  \<open>spansFrom ks sp\<close>: a recording span carries the resource and the processors of one of
  the constructions \<open>ks\<close>. \<open>registeredFrom ks w\<close>: the provider registered, if any, is that
  of the last of \<open>ks\<close>.
\<close>

definition spanFrom ::
  "(TelemetryContext \<times> HttpsProxyAgent option \<times> bool option) list \<Rightarrow> Span \<Rightarrow> bool" where
  "spanFrom ks sp \<longleftrightarrow>
     (span_recording sp \<longrightarrow>
        list_ex (\<lambda>k. span_resource sp = resource (providerOf k)
                    \<and> span_processors sp = processors (providerOf k)) ks)"

definition registeredFrom ::
  "(TelemetryContext \<times> HttpsProxyAgent option \<times> bool option) list \<Rightarrow> world \<Rightarrow> bool" where
  "registeredFrom ks w \<longleftrightarrow>
     (case globalTracerProvider w of
        None \<Rightarrow> True
      | Some p \<Rightarrow> ks \<noteq> [] \<and> p = providerOf (last ks))"

text \<open>
  \<open>alike P Q\<close>: the same instances, and processes that differ at most in the diagnostic
  logger installed.
\<close>

definition alike :: "processState \<Rightarrow> processState \<Rightarrow> bool" where
  "alike P Q \<longleftrightarrow> instances P = instances Q \<and> sameButDiag (shared P) (shared Q)"

text \<open>Two instances, the first debugging and the second not, for the worked instances.\<close>

definition exampleRequests :: "Request list" where
  "exampleRequests =
     [Construct exampleContext None (Some True),
      On 0 (SendEvent ''first'' None None None),
      Construct (exampleContext\<lparr>sessionId := ''s-2''\<rparr>) None None,
      On 0 (SendEvent ''second'' None None None),
      On 1 (SendEvent ''third'' None None None)]"

text \<open>
  A process with one adapter in production; a debugging construction that the SDK
  refuses; an event sent and the deferred export run afterwards.
\<close>

definition exampleProcess :: processState where
  "exampleProcess = serve [Construct exampleContext None None] (fresh 0)"

definition exampleAfter :: "Request list" where
  "exampleAfter = [On 0 (SendEvent ''first'' None None None), On 0 BatchExport]"

section \<open>Handling requests\<close>

lemma serve_simps [simp]:
  "serve [] P = P"
  "serve (r # rs) P = serve rs (handle r P)"
  "serve (rs @ qs) P = serve qs (serve rs P)"
  by (simp_all add: serve_def)

lemma constructions_append [simp]:
  "constructions (rs @ qs) = constructions rs @ constructions qs"
  by (induction rs rule: constructions.induct) simp_all

lemma fresh_simps [simp]:
  "instances (fresh t) = []"
  "shared (fresh t) = initial_world t"
  by (simp_all add: fresh_def)

lemma handle_Construct [simp]:
  "instances (handle (Construct c a dbg) P) = instances P @ [fst (constructor c a dbg (shared P))]"
  "shared (handle (Construct c a dbg) P) = snd (constructor c a dbg (shared P))"
  by (simp_all add: split_beta)

lemma handle_TryConstruct:
  "accepts sdk c a dbg \<Longrightarrow> handle (TryConstruct sdk c a dbg) P = handle (Construct c a dbg) P"
  "\<not> accepts sdk c a dbg \<Longrightarrow>
   handle (TryConstruct sdk c a dbg) P =
     \<lparr>instances = instances P, shared = snd (tryConstructor sdk c a dbg (shared P))\<rparr>"
proof -
  assume "accepts sdk c a dbg"
  then show "handle (TryConstruct sdk c a dbg) P = handle (Construct c a dbg) P"
    by (simp add: tryConstructor_accepts split_beta)
next
  assume "\<not> accepts sdk c a dbg"
  then have "isl (fst (tryConstructor sdk c a dbg (shared P)))" by simp
  then show "handle (TryConstruct sdk c a dbg) P =
     \<lparr>instances = instances P, shared = snd (tryConstructor sdk c a dbg (shared P))\<rparr>"
    by (cases "tryConstructor sdk c a dbg (shared P)") (auto simp: isl_def)
qed

lemma handle_On [simp]:
  "i < length (instances P) \<Longrightarrow>
   shared (handle (On i call) P) = process (step call \<lparr>adapter = instances P ! i, process = shared P\<rparr>)"
  "i < length (instances P) \<Longrightarrow>
   instances (handle (On i call) P) =
     (instances P)[i := adapter (step call \<lparr>adapter = instances P ! i, process = shared P\<rparr>)]"
  "length (instances P) \<le> i \<Longrightarrow> handle (On i call) P = P"
  by (simp_all add: Let_def)

declare handle.simps [simp del]

lemma gains_constructor [simp]: "gains w (snd (constructor c a dbg w))"
  by (simp add: gains_same owed_def)

lemma gains_handle: "gains (shared P) (shared (handle r P))"
proof (cases r)
  case (Construct c a dbg)
  then show ?thesis by simp
next
  case (TryConstruct sdk c a dbg)
  then show ?thesis
    by (cases "accepts sdk c a dbg")
       (simp_all add: handle_TryConstruct sameButDiag_gains tryConstructor_refused)
next
  case (On i call)
  with gains_step [of "\<lparr>adapter = instances P ! i, process = shared P\<rparr>" call]
  show ?thesis by (cases "i < length (instances P)") simp_all
qed

lemma conserved_serve: "conserved (shared P) \<Longrightarrow> conserved (shared (serve rs P))"
  by (induction rs arbitrary: P) (auto intro: gains_conserved [OF gains_handle])

section \<open>Where the spans come from\<close>

lemma spanFrom_update [simp]:
  "spanFrom ks (sp\<lparr>span_attributes := m\<rparr>) = spanFrom ks sp"
  "spanFrom ks (sp\<lparr>span_endTime := e\<rparr>) = spanFrom ks sp"
  by (simp_all add: spanFrom_def)

lemma spanFrom_mono: "spanFrom ks sp \<Longrightarrow> spanFrom (ks @ ks') sp"
  by (auto simp: spanFrom_def list_ex_iff)

lemma spanFrom_new:
  assumes "registeredFrom ks w"
  shows "spanFrom ks (openedSpan w this n d st)" and "spanFrom ks (sentSpan w this n d st et)"
  using assms
  by (auto simp: spanFrom_def registeredFrom_def list_ex_iff providerProcessors_def
      split: option.splits intro!: bexI [of _ "last ks"])

lemma registeredFrom_sameButDiag:
  "sameButDiag w w' \<Longrightarrow> registeredFrom ks w \<longleftrightarrow> registeredFrom ks w'"
  by (simp add: registeredFrom_def sameButDiag_def)

lemma registeredFrom_step:
  "registeredFrom ks (process s) \<Longrightarrow> registeredFrom ks (process (step call s))"
  by (cases call) (simp_all add: registeredFrom_def)

lemma spansFrom_step:
  assumes "registeredFrom ks (process s)" and "list_all (spanFrom ks) (spans (process s))"
  shows "list_all (spanFrom ks) (spans (process (step call s)))"
  using assms
  by (cases call)
     (simp_all add: spanFrom_new list_all_spans_setAttributes list_all_spans_endSpan)

lemma registeredFrom_handle:
  assumes "registeredFrom ks (shared P)"
  shows "registeredFrom (ks @ constructions [r]) (shared (handle r P))"
proof (cases r)
  case (Construct c a dbg)
  then show ?thesis by (simp add: registeredFrom_def providerOf_def)
next
  case (TryConstruct sdk c a dbg)
  show ?thesis
  proof (cases "accepts sdk c a dbg")
    case True
    with TryConstruct show ?thesis
      by (simp add: handle_TryConstruct registeredFrom_def providerOf_def)
  next
    case False
    with TryConstruct assms show ?thesis
      by (simp add: handle_TryConstruct registeredFrom_sameButDiag [OF tryConstructor_refused])
  qed
next
  case (On i call)
  with assms show ?thesis
    by (cases "i < length (instances P)") (simp_all add: registeredFrom_step)
qed

lemma spansFrom_handle:
  assumes "registeredFrom ks (shared P)" and "list_all (spanFrom ks) (spans (shared P))"
  shows "list_all (spanFrom (ks @ constructions [r])) (spans (shared (handle r P)))"
proof (cases r)
  case (Construct c a dbg)
  with assms(2) show ?thesis by (auto simp: list_all_iff intro: spanFrom_mono)
next
  case (TryConstruct sdk c a dbg)
  with assms(2) tryConstructor_refused [of sdk c a dbg "shared P"] show ?thesis
    by (cases "accepts sdk c a dbg")
       (auto simp: handle_TryConstruct list_all_iff sameButDiag_def intro: spanFrom_mono)
next
  case (On i call)
  with assms show ?thesis
    by (cases "i < length (instances P)") (simp_all add: spansFrom_step)
qed

lemma configured_serve:
  assumes "registeredFrom ks (shared P)" and "list_all (spanFrom ks) (spans (shared P))"
  shows "registeredFrom (ks @ constructions rs) (shared (serve rs P))
       \<and> list_all (spanFrom (ks @ constructions rs)) (spans (shared (serve rs P)))"
  using assms
proof (induction rs arbitrary: ks P)
  case Nil
  then show ?case by simp
next
  case (Cons r rs)
  from Cons.IH [OF registeredFrom_handle [OF Cons.prems(1), of r]
                   spansFrom_handle [OF Cons.prems, of r]]
  have "registeredFrom ((ks @ constructions [r]) @ constructions rs) (shared (serve (r # rs) P))
      \<and> list_all (spanFrom ((ks @ constructions [r]) @ constructions rs))
          (spans (shared (serve (r # rs) P)))"
    by simp
  moreover have "constructions (r # rs) = constructions [r] @ constructions rs"
    by (cases r) simp_all
  ultimately show ?case by simp
qed

section \<open>One instance\<close>

lemma serve_On_0:
  "serve (map (On 0) cs) \<lparr>instances = [x], shared = w\<rparr> =
     \<lparr>instances = [adapter (run cs \<lparr>adapter = x, process = w\<rparr>)],
      shared = process (run cs \<lparr>adapter = x, process = w\<rparr>)\<rparr>"
proof (induction cs arbitrary: x w)
  case Nil
  show ?case by simp
next
  case (Cons call cs)
  let ?s = "step call \<lparr>adapter = x, process = w\<rparr>"
  have "\<lparr>adapter = adapter ?s, process = process ?s\<rparr> = ?s" by simp
  with Cons [of "adapter ?s" "process ?s"] show ?case
    by (simp add: handle.simps Let_def)
qed

lemma boot_record:
  "boot c a dbg t =
     \<lparr>adapter = fst (constructor c a dbg (initial_world t)),
      process = snd (constructor c a dbg (initial_world t))\<rparr>"
  by (simp add: boot_def split_beta)

text \<open>
  A process with one adapter is the system of theory \<open>System\<close>: constructing one
  instance and addressing every call to it gives the adapter and the process that \<open>run\<close>
  gives from \<open>boot\<close>.
\<close>

lemma serve_one_instance:
  "serve (Construct c a dbg # map (On 0) cs) (fresh t) =
     \<lparr>instances = [adapter (run cs (boot c a dbg t))],
      shared = process (run cs (boot c a dbg t))\<rparr>"
  unfolding boot_record by (simp add: handle.simps split_beta serve_On_0)

section \<open>Processes that differ in the diagnostic logger\<close>

lemma alike_refl [simp]: "alike P P"
  by (simp add: alike_def)

lemma alike_trans: "alike P Q \<Longrightarrow> alike Q R \<Longrightarrow> alike P R"
  by (auto simp: alike_def intro: sameButDiag_trans)

lemma alike_shared:
  "alike P Q \<Longrightarrow> P = \<lparr>instances = instances Q, shared = (shared Q)\<lparr>diag := diag (shared P)\<rparr>\<rparr>"
  by (simp add: alike_def sameButDiag_iff [symmetric])

lemma handle_diag:
  "alike (handle r \<lparr>instances = xs, shared = w\<lparr>diag := d\<rparr>\<rparr>)
         (handle r \<lparr>instances = xs, shared = w\<rparr>)"
proof (cases r)
  case (Construct c a dbg)
  then show ?thesis by (simp add: alike_def constructor_diag)
next
  case (TryConstruct sdk c a dbg)
  show ?thesis
  proof (cases "accepts sdk c a dbg")
    case True
    with TryConstruct show ?thesis
      by (simp add: alike_def handle_TryConstruct constructor_diag)
  next
    case False
    from tryConstructor_refused [OF this] have
      "sameButDiag (snd (tryConstructor sdk c a dbg (w\<lparr>diag := d\<rparr>)))
                   (snd (tryConstructor sdk c a dbg w))"
      by (simp add: sameButDiag_def)
    with False TryConstruct show ?thesis by (simp add: alike_def handle_TryConstruct)
  qed
next
  case (On i call)
  then show ?thesis by (cases "i < length xs") (simp_all add: alike_def step_diag)
qed

lemma handle_alike:
  assumes "alike P Q"
  shows "alike (handle r P) (handle r Q)"
proof -
  have "\<lparr>instances = instances Q, shared = shared Q\<rparr> = Q" by simp
  with handle_diag [where r = r and xs = "instances Q" and w = "shared Q" and d = "diag (shared P)"]
  show ?thesis by (simp flip: alike_shared [OF assms])
qed

lemma serve_alike: "alike P Q \<Longrightarrow> alike (serve rs P) (serve rs Q)"
  by (induction rs arbitrary: P Q) (simp_all add: handle_alike)

lemma refused_alike: "\<not> accepts sdk c a dbg \<Longrightarrow> alike (handle (TryConstruct sdk c a dbg) P) P"
  by (simp add: alike_def handle_TryConstruct tryConstructor_refused)

section \<open>Properties of a process with several instances\<close>

text \<open>
  C28. However many adapters are constructed, and however the calls on them are
  interleaved, the process keeps its accounts: every ended span has been handed over,
  exported or held back, exactly once for each processor it was started with. The
  provider registered, if there is one, is that of the last construction, and every
  span that records carries the resource and the processors of one of the
  constructions, not necessarily of the adapter it was sent through.
\<close>

theorem instances_invariant:
  "let P = serve rs (fresh t); ks = constructions rs
   in conserved (shared P) \<and> registeredFrom ks (shared P)
    \<and> list_all (spanFrom ks) (spans (shared P))"
proof -
  have "registeredFrom [] (shared (fresh t))" and "list_all (spanFrom []) (spans (shared (fresh t)))"
    by (simp_all add: registeredFrom_def initial_world_def)
  from configured_serve [OF this, of rs] show ?thesis
    by (simp add: Let_def conserved_serve)
qed

theorem instances_invariant_witness:
  "let P = serve exampleRequests (fresh 0)
   in map (\<lambda>(e, sp). (endpointOf e, span_name sp)) (exported (shared P)) =
        [(None, ''first''), (Some devEndpoint, ''first'')]
    \<and> map (\<lambda>(e, sp). (endpointOf e, span_name sp)) (pending (shared P)) =
        [(Some prodEndpoint, ''second''), (Some prodEndpoint, ''third'')]
    \<and> conserved (shared P)
    \<and> registeredFrom (constructions exampleRequests) (shared P)"
  using instances_invariant [of exampleRequests 0]
  by (simp add: Let_def exampleRequests_def constructor_world providerProcessors_def)

text \<open>
  C29. A construction that the SDK refuses is isolated. If the constructor raises, then
  whatever requests follow, the process ends up with the same instances, the same
  registered provider, the same spans and the same exported and held-back entries as if
  the construction had never been attempted; the two processes can differ in the
  diagnostic logger and in nothing else. So the adapters constructed before keep
  working, and no span is lost, duplicated, or sent anywhere else because of the
  failure.
\<close>

theorem refused_construction_is_isolated:
  assumes "isl (fst (tryConstructor sdk c a dbg (shared P)))"
  shows "alike (serve (TryConstruct sdk c a dbg # rs) P) (serve rs P)"
  using assms by (simp add: serve_alike refused_alike)

theorem refused_construction_is_isolated_witness:
  "let P = serve (TryConstruct noExporter exampleContext None (Some True) # exampleAfter)
             exampleProcess;
       Q = serve exampleAfter exampleProcess
   in alike P Q
    \<and> diag (shared P) = Some (DiagConsoleLogger, VERBOSE) \<and> diag (shared Q) = None
    \<and> map (\<lambda>(e, sp). (endpointOf e, span_name sp)) (exported (shared P)) =
        [(Some prodEndpoint, ''first'')]
    \<and> pending (shared P) = []"
  using refused_construction_is_isolated
    [of noExporter exampleContext None "Some True" exampleProcess exampleAfter]
  by (simp add: Let_def exampleProcess_def exampleAfter_def handle_TryConstruct
      constructor_world providerProcessors_def)

end
