(* ===== verification/Spec2Isabelle.thy ===== *)
theory Spec2Isabelle
  imports Delivery Sessions Instances
begin

text \<open>
  \<^bold>\<open>A verified model of the OpenTelemetry adapter of GitLens.\<close>

  \<^bold>\<open>The program.\<close> The repository holds one source file,
  \<^verbatim>\<open>src/telemetry/openTelemetryProvider.ts\<close>: the class \<^verbatim>\<open>OpenTelemetryProvider\<close>. Its
  constructor describes the running process as a resource, builds a tracer provider with
  one or two span processors (when debugging: a console processor and a network
  processor that both export at once; otherwise one batching network processor),
  registers the provider process-wide and keeps a tracer. Its methods are
  \<^verbatim>\<open>sendEvent\<close> (start a span, set the global attributes and then the event's own, end
  it), \<^verbatim>\<open>startEvent\<close> (the same without the end; the caller ends the span),
  \<^verbatim>\<open>setGlobalAttributes\<close> (replace the stored attributes by the entries of a
  \<^verbatim>\<open>Map\<close>) and \<^verbatim>\<open>dispose\<close> (disable tracing process-wide). Everything else is the
  tracing SDK, which the class only calls.

  \<^bold>\<open>The theories.\<close> The first eight import one another in the order listed;
  \<open>Telemetry_Spec\<close>, \<open>Sessions\<close> and \<open>Instances\<close> import \<open>System\<close>, \<open>Delivery\<close> imports
  \<open>Telemetry_Spec\<close>, \<open>Construction_Faults\<close> imports \<open>Provider\<close>, and \<open>Instances\<close> imports
  \<open>Construction_Faults\<close> as well.
  \<^item> \<open>Telemetry_Prelude\<close>: the fact collections \<open>sdk_defs\<close>, \<open>adapter_defs\<close>, \<open>frame\<close> and
    \<open>diag_free\<close>; time stamps; \<open>nullish\<close> and \<open>truthy\<close> for the operators \<^verbatim>\<open>??\<close> and
    \<^verbatim>\<open>if (x)\<close> on an optional value; generic lemmas on maps built from entries, on lists
    addressed by index and on multisets of filtered lists.
  \<^item> \<open>Attributes\<close>: \<open>AttributeValue\<close>; a plain object as a map, a \<^verbatim>\<open>Map\<close> as an association
    list with distinct keys; \<open>fromEntries\<close> for \<^verbatim>\<open>Object.fromEntries\<close>, with its lookup
    and update laws.
  \<^item> \<open>Sdk_State\<close>: the SDK's objects (exporters, processors, provider, tracer, span) and
    the record \<open>world\<close>: the clock, the diagnostic logger, the provider registered
    process-wide, the span store, the spans a batching processor holds back
    (\<open>pending\<close>) and the spans handed to an exporter (\<open>exported\<close>). \<open>sameButDiag\<close> relates
    two worlds that differ at most in the logger.
  \<^item> \<open>Pipeline\<close>: \<open>onEnd\<close> for the two kinds of processor, \<open>onEndAll\<close> for a provider's
    list of them, \<open>batchExport\<close> for the deferred export, \<open>exportBatch\<close> for a part of
    it, \<open>dropPending\<close> for the loss of a held-back entry; the hand-overs a state owes
    (\<open>owed\<close>), the conservation invariant \<open>conserved\<close> and its part \<open>noSpurious\<close> that
    survives loss.
  \<^item> \<open>Span\<close>: \<open>startSpan\<close>, \<open>setAttributes\<close>, \<open>endSpan\<close> on the span store, and the life
    cycle of a span as the relation \<open>lifecycle\<close>; each operation's effect, its frame,
    that it moves a span along the life cycle only, keeps \<open>conserved\<close> and leaves ended
    spans alone.
  \<^item> \<open>Trace_Api\<close>: \<open>addSpanProcessor\<close>, \<open>register\<close>, \<open>disable\<close>, \<open>getTracer\<close>, \<open>setLogger\<close>,
    \<open>Date_now\<close>.
  \<^item> \<open>Provider\<close>: the class. \<open>TelemetryContext\<close> and \<open>OpenTelemetryProvider\<close> are records;
    \<open>resourceOf\<close>, \<open>devEndpoint\<close>, \<open>prodEndpoint\<close>, \<open>exporterUrl\<close>, \<open>exporterOptions\<close>,
    \<open>newExporter\<close>, \<open>exportProcessor\<close> and \<open>constructor\<close> are the constructor (lines 20 to
    54); \<open>dispose\<close>, \<open>sendEvent\<close>, \<open>startEvent\<close> and \<open>setGlobalAttributes\<close> are the methods
    (lines 56 to 76 and 90 to 92). A method takes the adapter and the world and returns
    what it changes. \<open>openedSpan\<close>, \<open>sentSpan\<close>, \<open>pipelineOf\<close> and \<open>builtProvider\<close> are
    closed forms the lemmas compare the methods with; they model no code.
  \<^item> \<open>System\<close>: one adapter in use. \<open>Call\<close> lists what can happen: the four methods, the
    caller's \<^verbatim>\<open>setAttributes\<close> and \<^verbatim>\<open>end\<close> on a handle \<^verbatim>\<open>startEvent\<close> returned, and
    the moves of the environment: the deferred export, in full or in part, and the
    passing of time. \<open>step\<close> performs one call, \<open>run\<close> a sequence, \<open>boot\<close> constructs the
    adapter on a fresh process, and \<open>reachable\<close> is the set of states that come about
    this way.
  \<^item> \<open>Telemetry_Spec\<close>: what the adapter promises without the SDK, a log of events
    (\<open>telemetry\<close>, \<open>spec_step\<close>), and the function \<open>abstraction\<close> from the states of
    \<open>System\<close> to that log.
  \<^item> \<open>Sessions\<close>: conditions on the calls of a session (\<open>endsSpan\<close>, \<open>untimed\<close>) and the
    invariants that hold under them: \<open>inOrder\<close> for the order of delivery, \<open>timely\<close> for
    the times of the spans, \<open>disabledFrom\<close> for the time after \<^verbatim>\<open>dispose\<close>.
  \<^item> \<open>Delivery\<close>: what reaches the collector. \<open>lossyReachable\<close> are the states reached when
    held-back entries may also be lost; the theory follows an event from the call to the
    exporter and shows that the endpoints are never mixed up.
  \<^item> \<open>Construction_Faults\<close>: the constructor when the SDK raises. \<open>Sdk\<close> holds the checks
    of the SDK, \<open>newResource\<close> and \<open>newOTLPTraceExporter\<close> raise \<open>SdkError\<close> when a check
    fails, and \<open>tryConstructor\<close> is the constructor again (lines 20 to 54) with a raise
    ending it at the statement that raised.
  \<^item> \<open>Instances\<close>: any number of adapters in one process. A \<open>Request\<close> constructs an
    instance, attempts a construction that the SDK may refuse, or calls an instance;
    \<open>handle\<close> performs it and \<open>serve\<close> a sequence. \<open>alike\<close> relates two processes with the
    same instances whose worlds are \<open>sameButDiag\<close>.
  \<^item> This theory: two properties of two instances, stated for one call each.

  \<^bold>\<open>What translates code and what does not.\<close> The definitions of \<open>Provider\<close> and
  \<open>tryConstructor\<close> translate the source, statement by statement. The definitions of
  \<open>Sdk_State\<close>, \<open>Pipeline\<close>, \<open>Span\<close> and \<open>Trace_Api\<close> model the tracing SDK, which is not
  part of the repository, after the system description. \<open>Call\<close>, \<open>step\<close>, \<open>run\<close>, \<open>boot\<close>,
  \<open>Request\<close>, \<open>handle\<close>, \<open>serve\<close> and \<open>fresh\<close> translate nothing: the callers of the
  adapter are outside the repository, and these definitions stand for whatever the
  callers and the SDK's timer may do, in any order. The invariants are proved for all
  of it.

  \<^bold>\<open>How the model reads the code.\<close> An optional parameter is an \<open>option\<close>. A time is an
  integer, the milliseconds \<^verbatim>\<open>Date.now()\<close> returns; the other forms a time may take in
  the SDK are not modelled. A span handle is an index into the span store, so two
  handles never alias and a span object changed through one handle is seen through that
  handle only. A call of the adapter is instantaneous: every reading of the clock within
  one call gives the same value, and time passes only by the call \<open>Tick\<close>; where the
  system description says an event with no times has a duration near zero, the model
  gives zero. Nothing in the class loops or recurses, and no definition of the model
  does, so none needs fuel or a termination proof; the sequences \<open>run\<close> and \<open>serve\<close> take
  are of any length. The SDK is modelled from the system description, not from its code:
  \<^item> a span takes attributes only while open, ends once, and is passed to the processors
    at its first end;
  \<^item> a simple processor exports at once, a batching one holds the span until the
    deferred export, which belongs to the environment; how many entries one export
    takes is not given, so \<open>exportBatch\<close> has the number as a parameter and the invariants
    hold for every number; the batching processors of a process share the list
    \<open>pending\<close>, in which an entry names its exporter;
  \<^item> registration replaces the provider registered before, as the system description
    says. The tracer the adapter keeps is taken to look the registered provider up
    each time it starts a span; neither the source nor the system description decides
    this, and the properties about \<^verbatim>\<open>dispose\<close> (C8, C22) and about a second instance
    (C17) depend on it;
  \<^item> the diagnostic logger is installed and never consulted: every operation commutes
    with a change of it (the lemmas of the collection \<open>diag_free\<close>, one group in each
    theory from \<open>Pipeline\<close> to \<open>System\<close>).

  \<^bold>\<open>What is proved.\<close>
  \<^item> In \<open>Provider\<close>, about single calls: the full effect of \<^verbatim>\<open>sendEvent\<close> and of
    \<^verbatim>\<open>startEvent\<close> on the span store and the pipeline (C1, C2); that the event's data wins
    over the global attributes key by key (C3); that \<^verbatim>\<open>setGlobalAttributes\<close> replaces and
    does not merge (C4); the provider, processors, endpoint and logger the constructor
    sets up (C5); that a debugging adapter exports within the call (C6) and a production
    adapter holds the span until the deferred export (C7); that \<^verbatim>\<open>sendEvent\<close> after
    \<^verbatim>\<open>dispose\<close> records nothing (C8); that \<^verbatim>\<open>sendEvent\<close> is \<^verbatim>\<open>startEvent\<close> and then
    \<^verbatim>\<open>end\<close> (C9); the duration of an event for each combination of times given (C18).
  \<^item> In \<open>System\<close>, about every reachable state, by induction over \<open>reachable\<close>:
    conservation, every ended span has been handed over exactly once to each exporter of
    the pipeline, exported or still pending (C10); a span that was started and not ended
    is never handed over (C11); a debugging adapter never has anything pending (C12); a
    production adapter has delivered everything after the next deferred export (C13); an
    ended span never changes again (C14).
  \<^item> In \<open>Telemetry_Spec\<close>: \<open>abstraction\<close> commutes with every call (C15) and so with every
    session (C16), which makes \<open>spec_step\<close> a complete description of what callers can
    observe in the span store.
  \<^item> In \<open>Sessions\<close>, by one induction over \<open>run\<close> each: when no caller ends a span by
    hand, events reach the exporters in the order they were sent (C20); when no caller
    passes a time, every span lies within the session and no duration is negative
    (C21); after \<^verbatim>\<open>dispose\<close> no span records and none started later is ever handed
    over (C22); a span changes only by taking attributes while open and by being closed
    once (C23).
  \<^item> In \<open>Delivery\<close>: loss removes hand-overs and never adds or repeats one (C24); an
    event arrives at the exporter as it was sent (C25); no span goes to the endpoint of
    the other mode (C26).
  \<^item> In \<open>Construction_Faults\<close>: the three outcomes of a construction, among them the one
    that raises after the diagnostic logger has been replaced (C27).
  \<^item> In \<open>Instances\<close>: conservation, the last registration and the origin of every span,
    for any number of instances and any interleaving (C28); a construction that raises
    changes nothing but the diagnostic logger, whatever requests follow (C29, from the
    step consistency of \<open>alike\<close>: \<open>handle\<close> takes processes that are alike to processes
    that are alike).
  \<^item> Here: a second adapter constructed while the first is in use takes over the first
    one's events (C17), while the global attributes stay with the instance they were set
    on (C19).

  \<^bold>\<open>What is not modelled.\<close> The network, the wire format, compression and the proxy (the
  exporter's options are carried as data and an export is the entry in \<open>exported\<close>);
  the retries of a failed export, of which only the outcome is kept, delivery or loss;
  exceptions raised inside the SDK other than by the two constructors named in
  \<open>Construction_Faults\<close>, which are the two failures the system description names, and
  what makes the SDK raise; the batching processor's timer, the size of its batches and
  the limit of its queue, of which the model keeps that an export happens at some time,
  for some of the entries, and that an entry may be lost; a flush of the held-back
  spans, which the class never asks for; a queue of its own for each batching
  processor; span context,
  links, status and kind; attribute values that are arrays; the forms of a time other
  than milliseconds; the host extension. The methods \<^verbatim>\<open>sendErrorEvent\<close> and
  \<^verbatim>\<open>sendException\<close> are commented out in the source and have no model. Every statement
  of the class (lines 16 to 76 and 90 to 92 of the source) has its definition; the
  lines without one are the imports and the commented-out methods. What is left out of
  the SDK is left out because the system description does not say how it behaves: it
  gives no queue limit, no retry policy, no timer period and no condition under which a
  constructor of the SDK raises, so a definition of any of them would be invented and
  not modelled.
\<close>

section \<open>Two adapters in one process\<close>

text \<open>
  C17. Registration is process-wide. When a second adapter is constructed while a first
  one is in use, the provider of the second replaces that of the first: an event sent
  through the first adapter afterwards is recorded under the scope of the first, but
  with the resource of the second context and through the processors of the second,
  and \<^verbatim>\<open>dispose\<close> on either adapter stops the recording of both.
\<close>

theorem second_instance_takes_over:
  "let (first, w1) = constructor c1 a1 d1 w;
       (second, w2) = constructor c2 a2 d2 w1;
       sp = last (spans (sendEvent first n d st et w2))
   in globalTracerProvider w2 = Some (builtProvider c2 a2 d2)
    \<and> span_scope sp = extensionId c1
    \<and> span_resource sp = resourceOf c2
    \<and> span_processors sp = pipelineOf a2 d2
    \<and> isEnded sp
    \<and> \<not> span_recording (last (spans (sendEvent first n d st et (dispose second w2))))
    \<and> \<not> span_recording (last (spans (sendEvent second n d st et (dispose first w2))))"
  by (simp add: constructor_world Let_def providerProcessors_def)

text \<open>
  C19. The global attributes belong to the instance, not to the process. With two
  adapters over one registered provider, \<^verbatim>\<open>setGlobalAttributes\<close> on the first changes
  the attributes of the events sent through the first and leaves the events sent through
  the second without them.
\<close>

theorem globals_are_per_instance:
  "let (first, w1) = constructor c1 a1 d1 w;
       (second, w2) = constructor c2 a2 d2 w1;
       first = setGlobalAttributes first m
   in span_attributes (last (spans (sendEvent first n None st et w2))) = DAList.lookup m
    \<and> span_attributes (last (spans (sendEvent second n None st et w2))) = Map.empty
    \<and> span_attributes (last (spans (sendEvent second n (Some d) st et w2))) = d"
  by (simp add: constructor_world Let_def openedSpan_attributes fromEntriesMap_lookup)

end
